theory Spec2Isabelle
  imports Complex_Main "HOL-Library.Word"
begin

section \<open>tf2 transform datatypes: conversions between messages and math types\<close>

text \<open>
  A shallow embedding of \<^verbatim>\<open>tf2/include/tf2/transform_datatypes.h\<close>.

  Conventions of the model.
  \<^item> \<^verbatim>\<open>btScalar\<close>, \<^verbatim>\<open>double\<close> and the \<^verbatim>\<open>float64\<close> message fields are real numbers:
    arithmetic is exact, and rounding, infinities and NaN are outside the model. The code
    computes in double precision; a property that depends on a computed squared length is
    stated where the real number stands for the computed one up to rounding: for squared
    lengths between \<open>10\<^sup>-\<^sup>3\<^sup>0\<^sup>0\<close> and \<open>10\<^sup>3\<^sup>0\<^sup>0\<close>, where no square overflows or underflows,
    and for deviations from 1 that differ from the tolerance by \<open>10\<^sup>-\<^sup>1\<^sup>2\<close> at least, far more
    than the rounding of the sum of four squares.
  \<^item> The normalization of a zero quaternion divides by zero and leaves NaN in the four
    components (or fails a \<^verbatim>\<open>btAssert\<close>): such a quaternion is the value
    \<open>Inl DivisionByZero\<close>. The code goes on after it, and so does the model: whatever else a
    conversion assigns is assigned beside it.
  \<^item> A function \<^verbatim>\<open>void f(const In& a, Out& b)\<close> becomes \<open>f a b\<close>, which returns the value
    of \<open>b\<close> on return.
  \<^item> \<^verbatim>\<open>ROS_WARN\<close> appends its message to a console, a list of strings that is passed through
    every conversion that takes quaternion components.
  \<^item> A C++ base class becomes the field \<open>data\<close> of the record of the derived class.
  \<^item> Field names are those of the source; a field shared by several records is written with
    the record's name in front, as in \<open>QuaternionMsg.x\<close>. The members \<^verbatim>\<open>stamp_\<close>,
    \<^verbatim>\<open>frame_id_\<close> and \<^verbatim>\<open>child_frame_id_\<close> lose their last character, which a name cannot
    end with here: they are \<open>Stamped.stamp\<close>, \<open>Stamped.frame_id\<close>, and so on.
\<close>

subsection \<open>Scalars\<close>

type_synonym btScalar = real

definition fabs :: "real \<Rightarrow> real" where
  "fabs a = \<bar>a\<bar>"

text \<open>
  \<^verbatim>\<open>static const double QUATERNION_TOLERANCE = 0.1f;\<close>
  The initialiser is a single-precision literal: the binary32 number nearest to one tenth,
  \<open>13421773 / 2^27 = 0.100000001490116119384765625\<close>, which the conversion to
  \<^verbatim>\<open>double\<close> keeps exactly.
\<close>

definition QUATERNION_TOLERANCE :: real where
  "QUATERNION_TOLERANCE = 13421773 / 134217728"

subsection \<open>Messages\<close>

text \<open>
  The message structures belong to \<^verbatim>\<open>geometry_msgs\<close> and \<^verbatim>\<open>std_msgs\<close>, whose headers
  are not part of the sources; Section 6 of the specification gives their shapes.
\<close>

text \<open>Modelled from the spec: \<^verbatim>\<open>geometry_msgs::Quaternion\<close>,
  "QuaternionMsg{x,y,z,w: float64}".\<close>

record QuaternionMsg =
  x :: real
  y :: real
  z :: real
  w :: real

text \<open>Modelled from the spec: \<^verbatim>\<open>geometry_msgs::Vector3\<close>, "Vector3Msg{x,y,z: float64}".\<close>

record Vector3Msg =
  x :: real
  y :: real
  z :: real

text \<open>Modelled from the spec: \<^verbatim>\<open>geometry_msgs::Point\<close>, "PointMsg{x,y,z: float64}".\<close>

record PointMsg =
  x :: real
  y :: real
  z :: real

text \<open>
  A message that holds a quaternion has the type of that field as its parameter. In a message
  that a conversion reads, the field is a \<open>QuaternionMsg\<close>. In a message that a conversion has
  written, it is an \<open>error + QuaternionMsg\<close>: the four numbers, or \<open>Inl DivisionByZero\<close> where
  the normalization of a zero quaternion has left no numbers in the four fields. The other
  fields of the message are written all the same.
\<close>

text \<open>Modelled from the spec: \<^verbatim>\<open>geometry_msgs::Transform\<close>,
  "TransformMsg{translation: Vector3Msg, rotation: QuaternionMsg}".\<close>

record 'q TransformMsg =
  translation :: Vector3Msg
  rotation :: 'q

text \<open>Modelled from the spec: \<^verbatim>\<open>geometry_msgs::Pose\<close>,
  "PoseMsg{position: PointMsg, orientation: QuaternionMsg}".\<close>

record 'q PoseMsg =
  position :: PointMsg
  orientation :: 'q

text \<open>Modelled from the spec: \<^verbatim>\<open>ros::Time\<close> (\<^verbatim>\<open>ros/time.h\<close> is not part of the sources),
  the "timestamp" of a header and of a stamped value. The specification leaves the
  representation open ("process-defined"); the model takes that of ROS, seconds and
  nanoseconds as two unsigned 32-bit integers, compared field by field. No property below
  depends on it beyond equality.\<close>

record Time =
  sec :: "32 word"
  nsec :: "32 word"

text \<open>Modelled from the spec: the default constructor of \<^verbatim>\<open>ros::Time\<close>, the time zero.\<close>

definition Time_default :: Time where
  "Time_default = \<lparr>sec = 0, nsec = 0\<rparr>"

text \<open>Modelled from the spec: \<^verbatim>\<open>std_msgs::Header\<close>,
  "Header{stamp: Time, frame_id: string}".\<close>

record Header =
  stamp :: Time
  frame_id :: string

text \<open>Modelled from the spec: \<^verbatim>\<open>geometry_msgs::QuaternionStamped\<close>, a header and the payload
  \<^verbatim>\<open>quaternion\<close>.\<close>

record 'q QuaternionStampedMsg =
  header :: Header
  quaternion :: 'q

text \<open>Modelled from the spec: \<^verbatim>\<open>geometry_msgs::Vector3Stamped\<close>, a header and the payload
  \<^verbatim>\<open>vector\<close>.\<close>

record Vector3StampedMsg =
  header :: Header
  vector :: Vector3Msg

text \<open>Modelled from the spec: \<^verbatim>\<open>geometry_msgs::PointStamped\<close>, a header and the payload
  \<^verbatim>\<open>point\<close>.\<close>

record PointStampedMsg =
  header :: Header
  point :: PointMsg

text \<open>Modelled from the spec: \<^verbatim>\<open>geometry_msgs::TransformStamped\<close>, a header, "for
  transforms, a child_frame_id: string", and the payload \<^verbatim>\<open>transform\<close>.\<close>

record 't TransformStampedMsg =
  header :: Header
  child_frame_id :: string
  transform :: 't

text \<open>Modelled from the spec: \<^verbatim>\<open>geometry_msgs::PoseStamped\<close>, a header and the payload
  \<^verbatim>\<open>pose\<close>.\<close>

record 'p PoseStampedMsg =
  header :: Header
  pose :: 'p

subsection \<open>Vectors and points\<close>

text \<open>
  \<^verbatim>\<open>tf2::Vector3\<close> and \<^verbatim>\<open>tf2::Point\<close> are type definitions of \<^verbatim>\<open>btVector3\<close>, a class of
  the LinearMath library, which is not part of the sources.
\<close>

text \<open>Modelled from the spec: \<^verbatim>\<open>btVector3\<close>, "3 numeric components", read by the accessors
  \<^verbatim>\<open>x()\<close>, \<^verbatim>\<open>y()\<close> and \<^verbatim>\<open>z()\<close>.\<close>

record Vector3 =
  x :: btScalar
  y :: btScalar
  z :: btScalar

type_synonym Point = Vector3

text \<open>Modelled from the spec: the constructor \<^verbatim>\<open>btVector3(x, y, z)\<close>.\<close>

definition btVector3 :: "btScalar \<Rightarrow> btScalar \<Rightarrow> btScalar \<Rightarrow> Vector3" where
  "btVector3 a b c = \<lparr>Vector3.x = a, Vector3.y = b, Vector3.z = c\<rparr>"

text \<open>Modelled from the spec: \<^verbatim>\<open>btVector3::operator==\<close>, the equality of "point values":
  the components are compared one by one.\<close>

definition Vector3_eq :: "Vector3 \<Rightarrow> Vector3 \<Rightarrow> bool" where
  "Vector3_eq a b =
     (Vector3.x a = Vector3.x b \<and> Vector3.y a = Vector3.y b \<and> Vector3.z a = Vector3.z b)"

subsection \<open>Vector3 and Point conversions\<close>

text \<open>
  \<^verbatim>\<open>vector3MsgToTF2(msg_v, bt_v) {bt_v = Vector3(msg_v.x, msg_v.y, msg_v.z);}\<close>
\<close>

definition vector3MsgToTF2 :: "Vector3Msg \<Rightarrow> Vector3 \<Rightarrow> Vector3" where
  "vector3MsgToTF2 msg_v bt_v =
     btVector3 (Vector3Msg.x msg_v) (Vector3Msg.y msg_v) (Vector3Msg.z msg_v)"

text \<open>
  \<^verbatim>\<open>vector3TF2ToMsg(bt_v, msg_v) {msg_v.x = bt_v.x(); msg_v.y = bt_v.y(); msg_v.z = bt_v.z();}\<close>
\<close>

definition vector3TF2ToMsg :: "Vector3 \<Rightarrow> Vector3Msg \<Rightarrow> Vector3Msg" where
  "vector3TF2ToMsg bt_v msg_v =
     msg_v\<lparr>Vector3Msg.x := Vector3.x bt_v, Vector3Msg.y := Vector3.y bt_v,
           Vector3Msg.z := Vector3.z bt_v\<rparr>"

definition pointMsgToTF2 :: "PointMsg \<Rightarrow> Point \<Rightarrow> Point" where
  "pointMsgToTF2 msg_v bt_v =
     btVector3 (PointMsg.x msg_v) (PointMsg.y msg_v) (PointMsg.z msg_v)"

definition pointTF2ToMsg :: "Point \<Rightarrow> PointMsg \<Rightarrow> PointMsg" where
  "pointTF2ToMsg bt_v msg_v =
     msg_v\<lparr>PointMsg.x := Vector3.x bt_v, PointMsg.y := Vector3.y bt_v,
           PointMsg.z := Vector3.z bt_v\<rparr>"

subsection \<open>Quaternions\<close>

text \<open>
  \<^verbatim>\<open>tf2::Quaternion\<close> is a type definition of \<^verbatim>\<open>btQuaternion\<close>, a class of the LinearMath
  library, which is not part of the sources. The specification lists what the library
  provides: "quaternion construction, squared-length, normalization, accessors,
  rotation-matrix construction, and roll/pitch/yaw decomposition".
\<close>

text \<open>Modelled from the spec: \<^verbatim>\<open>btQuaternion\<close>, "4 numeric components", read by the
  accessors \<^verbatim>\<open>x()\<close>, \<^verbatim>\<open>y()\<close>, \<^verbatim>\<open>z()\<close> and \<^verbatim>\<open>w()\<close>.\<close>

record Quaternion =
  x :: btScalar
  y :: btScalar
  z :: btScalar
  w :: btScalar

text \<open>Modelled from the spec: the constructor \<^verbatim>\<open>btQuaternion(x, y, z, w)\<close>.\<close>

definition btQuaternion :: "btScalar \<Rightarrow> btScalar \<Rightarrow> btScalar \<Rightarrow> btScalar \<Rightarrow> Quaternion" where
  "btQuaternion a b c d =
     \<lparr>Quaternion.x = a, Quaternion.y = b, Quaternion.z = c, Quaternion.w = d\<rparr>"

text \<open>Modelled from the spec: \<^verbatim>\<open>btQuaternion::length2\<close>, the "squared length": the sum of
  the squares of the four components. It is the real sum; the sum that the code computes in
  double precision differs from it by rounding, of relative size \<open>10\<^sup>-\<^sup>1\<^sup>5\<close>, as long as the
  squares neither overflow nor underflow.\<close>

definition length2 :: "Quaternion \<Rightarrow> btScalar" where
  "length2 q =
     Quaternion.x q * Quaternion.x q + Quaternion.y q * Quaternion.y q
       + Quaternion.z q * Quaternion.z q + Quaternion.w q * Quaternion.w q"

text \<open>Modelled from the spec: \<^verbatim>\<open>btQuaternion::length\<close>, the square root of the squared
  length.\<close>

definition length_q :: "Quaternion \<Rightarrow> btScalar" where
  "length_q q = sqrt (length2 q)"

datatype error = DivisionByZero

text \<open>Modelled from the spec: \<^verbatim>\<open>btQuaternion::normalize\<close>, the "normalization": every
  component is multiplied by the reciprocal of the length. For a quaternion of length zero
  the reciprocal is a division by zero. Outside squared lengths between \<open>10\<^sup>-\<^sup>3\<^sup>0\<^sup>0\<close> and
  \<open>10\<^sup>3\<^sup>0\<^sup>0\<close> the double-precision code can overflow or underflow on the way, and no
  property below uses the function there.\<close>

definition normalize_q :: "Quaternion \<Rightarrow> error + Quaternion" where
  "normalize_q q =
     (if length_q q = 0 then Inl DivisionByZero
      else Inr (btQuaternion (Quaternion.x q * (1 / length_q q))
                             (Quaternion.y q * (1 / length_q q))
                             (Quaternion.z q * (1 / length_q q))
                             (Quaternion.w q * (1 / length_q q))))"

subsection \<open>The console\<close>

type_synonym console = "string list"

definition ROS_WARN :: "string \<Rightarrow> console \<Rightarrow> console" where
  "ROS_WARN text c = c @ [text]"

subsection \<open>Quaternion conversions\<close>

text \<open>
  \<^verbatim>\<open>quaternionMsgToTF2(msg, bt)\<close>: \<open>bt\<close> is assigned the four fields of the message; when
  the squared length is off by more than the tolerance, a warning is printed and \<open>bt\<close> is
  normalized in place.
\<close>

definition quaternionMsgToTF2 ::
  "QuaternionMsg \<Rightarrow> Quaternion \<Rightarrow> console \<Rightarrow> (error + Quaternion) \<times> console" where
  "quaternionMsgToTF2 msg bt c =
     (let bt1 = btQuaternion (QuaternionMsg.x msg) (QuaternionMsg.y msg)
                             (QuaternionMsg.z msg) (QuaternionMsg.w msg)
      in if fabs (length2 bt1 - 1) > QUATERNION_TOLERANCE
         then (normalize_q bt1,
               ROS_WARN ''MSG to TF2: Quaternion Not Properly Normalized'' c)
         else (Inr bt1, c))"

text \<open>
  \<^verbatim>\<open>quaternionTF2ToMsg(bt, msg)\<close>: the four fields of the message are assigned from
  \<open>bt\<close>, or from the normalized local copy \<open>bt_temp\<close> after a warning. The result lists the
  values, on return, of \<open>bt\<close> (a const reference, which the body never assigns), of the message
  and of the console.
\<close>

definition quaternionTF2ToMsg ::
  "Quaternion \<Rightarrow> QuaternionMsg \<Rightarrow> console
     \<Rightarrow> Quaternion \<times> (error + QuaternionMsg) \<times> console" where
  "quaternionTF2ToMsg bt msg c =
     (if fabs (length2 bt - 1) > QUATERNION_TOLERANCE
      then (let c1 = ROS_WARN ''TF2 to MSG: Quaternion Not Properly Normalized'' c;
                bt_temp = bt
            in case normalize_q bt_temp of
                 Inl e \<Rightarrow> (bt, Inl e, c1)
               | Inr bt_temp1 \<Rightarrow>
                   (bt,
                    Inr (msg\<lparr>QuaternionMsg.x := Quaternion.x bt_temp1,
                             QuaternionMsg.y := Quaternion.y bt_temp1,
                             QuaternionMsg.z := Quaternion.z bt_temp1,
                             QuaternionMsg.w := Quaternion.w bt_temp1\<rparr>),
                    c1))
      else (bt,
            Inr (msg\<lparr>QuaternionMsg.x := Quaternion.x bt, QuaternionMsg.y := Quaternion.y bt,
                     QuaternionMsg.z := Quaternion.z bt, QuaternionMsg.w := Quaternion.w bt\<rparr>),
            c))"

subsection \<open>Stamped values\<close>

text \<open>
  \<^verbatim>\<open>template <typename T> class Stamped : public T\<close>. The base object is the field
  \<open>data\<close>. The default constructor of the class sets \<^verbatim>\<open>frame_id_\<close> only; \<open>t0\<close> is whatever the
  default constructor of \<open>T\<close> produces, and the time is default-constructed.
\<close>

record 'a Stamped =
  data :: 'a
  stamp :: Time
  frame_id :: string

definition Stamped_default :: "'a \<Rightarrow> 'a Stamped" where
  "Stamped_default t0 =
     \<lparr>Stamped.data = t0, Stamped.stamp = Time_default,
      Stamped.frame_id = ''NO_ID_STAMPED_DEFAULT_CONSTRUCTION''\<rparr>"

definition Stamped_full :: "'a \<Rightarrow> Time \<Rightarrow> string \<Rightarrow> 'a Stamped" where
  "Stamped_full input timestamp frame =
     \<lparr>Stamped.data = input, Stamped.stamp = timestamp, Stamped.frame_id = frame\<rparr>"

definition setData :: "'a \<Rightarrow> 'a Stamped \<Rightarrow> 'a Stamped" where
  "setData input this = this\<lparr>Stamped.data := input\<rparr>"

text \<open>
  \<^verbatim>\<open>operator==(const Stamped<T> &a, const Stamped<T> &b)\<close>; \<open>eqT\<close> is the
  \<^verbatim>\<open>operator==\<close> of the base class \<open>T\<close>.
\<close>

definition operator_eq_Stamped ::
  "('a \<Rightarrow> 'a \<Rightarrow> bool) \<Rightarrow> 'a Stamped \<Rightarrow> 'a Stamped \<Rightarrow> bool" where
  "operator_eq_Stamped eqT a b =
     (Stamped.frame_id a = Stamped.frame_id b \<and> Stamped.stamp a = Stamped.stamp b
      \<and> eqT (Stamped.data a) (Stamped.data b))"

text \<open>
  \<^verbatim>\<open>class StampedTransform : public tf2::Transform\<close>. The type \<open>'t\<close> stands for
  \<^verbatim>\<open>btTransform\<close>, which this header uses through its constructor and the accessors
  \<^verbatim>\<open>getOrigin\<close> and \<^verbatim>\<open>getRotation\<close> only; they are parameters of the conversions below.
  The default constructor initialises nothing explicitly: the strings are empty, the time is
  default-constructed, \<open>t0\<close> is the default-constructed transform.
\<close>

record 't StampedTransform =
  data :: 't
  stamp :: Time
  frame_id :: string
  child_frame_id :: string

definition StampedTransform_full ::
  "'t \<Rightarrow> Time \<Rightarrow> string \<Rightarrow> string \<Rightarrow> 't StampedTransform" where
  "StampedTransform_full input timestamp frame child_frame =
     \<lparr>StampedTransform.data = input, StampedTransform.stamp = timestamp,
      StampedTransform.frame_id = frame,
      StampedTransform.child_frame_id = child_frame\<rparr>"

definition StampedTransform_default :: "'t \<Rightarrow> 't StampedTransform" where
  "StampedTransform_default t0 =
     \<lparr>StampedTransform.data = t0, StampedTransform.stamp = Time_default,
      StampedTransform.frame_id = [], StampedTransform.child_frame_id = []\<rparr>"

definition setData_StampedTransform :: "'t \<Rightarrow> 't StampedTransform \<Rightarrow> 't StampedTransform" where
  "setData_StampedTransform input this = this\<lparr>StampedTransform.data := input\<rparr>"

definition operator_eq_StampedTransform ::
  "('t \<Rightarrow> 't \<Rightarrow> bool) \<Rightarrow> 't StampedTransform \<Rightarrow> 't StampedTransform \<Rightarrow> bool" where
  "operator_eq_StampedTransform eqT a b =
     (StampedTransform.frame_id a = StampedTransform.frame_id b
      \<and> StampedTransform.child_frame_id a = StampedTransform.child_frame_id b
      \<and> StampedTransform.stamp a = StampedTransform.stamp b
      \<and> eqT (StampedTransform.data a) (StampedTransform.data b))"

subsection \<open>Stamped conversions of quaternions, vectors and points\<close>

text \<open>
  \<^verbatim>\<open>quaternionStampedMsgToTF2(msg, bt) {quaternionMsgToTF2(msg.quaternion, bt);
  bt.stamp_ = msg.header.stamp; bt.frame_id_ = msg.header.frame_id;}\<close>
  The three members of \<open>bt\<close> are assigned one after the other, whatever the first
  assignment gives.
\<close>

definition quaternionStampedMsgToTF2 ::
  "QuaternionMsg QuaternionStampedMsg \<Rightarrow> Quaternion Stamped \<Rightarrow> console
     \<Rightarrow> (error + Quaternion) Stamped \<times> console" where
  "quaternionStampedMsgToTF2 msg bt c =
     (case quaternionMsgToTF2 (QuaternionStampedMsg.quaternion msg) (Stamped.data bt) c of
        (q, c1) \<Rightarrow>
          (\<lparr>Stamped.data = q,
            Stamped.stamp = Header.stamp (QuaternionStampedMsg.header msg),
            Stamped.frame_id = Header.frame_id (QuaternionStampedMsg.header msg)\<rparr>,
           c1))"

text \<open>
  \<^verbatim>\<open>quaternionStampedTF2ToMsg(bt, msg) {quaternionTF2ToMsg(bt, msg.quaternion);
  msg.header.stamp = bt.stamp_; msg.header.frame_id = bt.frame_id_;}\<close>
\<close>

definition quaternionStampedTF2ToMsg ::
  "Quaternion Stamped \<Rightarrow> QuaternionMsg QuaternionStampedMsg \<Rightarrow> console
     \<Rightarrow> (error + QuaternionMsg) QuaternionStampedMsg \<times> console" where
  "quaternionStampedTF2ToMsg bt msg c =
     (case quaternionTF2ToMsg (Stamped.data bt) (QuaternionStampedMsg.quaternion msg) c of
        (bt0, q, c1) \<Rightarrow>
          (\<lparr>QuaternionStampedMsg.header =
              (QuaternionStampedMsg.header msg)\<lparr>Header.stamp := Stamped.stamp bt,
                Header.frame_id := Stamped.frame_id bt\<rparr>,
            QuaternionStampedMsg.quaternion = q\<rparr>,
           c1))"

definition vector3StampedMsgToTF2 ::
  "Vector3StampedMsg \<Rightarrow> Vector3 Stamped \<Rightarrow> Vector3 Stamped" where
  "vector3StampedMsgToTF2 msg bt =
     bt\<lparr>Stamped.data := vector3MsgToTF2 (Vector3StampedMsg.vector msg) (Stamped.data bt),
        Stamped.stamp := Header.stamp (Vector3StampedMsg.header msg),
        Stamped.frame_id := Header.frame_id (Vector3StampedMsg.header msg)\<rparr>"

definition vector3StampedTF2ToMsg ::
  "Vector3 Stamped \<Rightarrow> Vector3StampedMsg \<Rightarrow> Vector3StampedMsg" where
  "vector3StampedTF2ToMsg bt msg =
     msg\<lparr>Vector3StampedMsg.vector :=
           vector3TF2ToMsg (Stamped.data bt) (Vector3StampedMsg.vector msg),
         Vector3StampedMsg.header :=
           (Vector3StampedMsg.header msg)\<lparr>Header.stamp := Stamped.stamp bt,
                        Header.frame_id := Stamped.frame_id bt\<rparr>\<rparr>"

definition pointStampedMsgToTF2 ::
  "PointStampedMsg \<Rightarrow> Point Stamped \<Rightarrow> Point Stamped" where
  "pointStampedMsgToTF2 msg bt =
     bt\<lparr>Stamped.data := pointMsgToTF2 (PointStampedMsg.point msg) (Stamped.data bt),
        Stamped.stamp := Header.stamp (PointStampedMsg.header msg),
        Stamped.frame_id := Header.frame_id (PointStampedMsg.header msg)\<rparr>"

definition pointStampedTF2ToMsg ::
  "Point Stamped \<Rightarrow> PointStampedMsg \<Rightarrow> PointStampedMsg" where
  "pointStampedTF2ToMsg bt msg =
     msg\<lparr>PointStampedMsg.point :=
           pointTF2ToMsg (Stamped.data bt) (PointStampedMsg.point msg),
         PointStampedMsg.header :=
           (PointStampedMsg.header msg)\<lparr>Header.stamp := Stamped.stamp bt,
                        Header.frame_id := Stamped.frame_id bt\<rparr>\<rparr>"

subsection \<open>Transform and pose conversions\<close>

text \<open>
  \<^verbatim>\<open>tf2::Transform\<close> and \<^verbatim>\<open>tf2::Pose\<close> are type definitions of \<^verbatim>\<open>btTransform\<close>, the type
  \<open>'t\<close>. \<open>Transform_ctor\<close> is its constructor from a quaternion and a vector, \<open>getOrigin\<close> and
  \<open>getRotation\<close> are its accessors.

  \<^verbatim>\<open>transformMsgToTF2(msg, bt) {bt = Transform(Quaternion(msg.rotation.x, msg.rotation.y,
  msg.rotation.z, msg.rotation.w), Vector3(msg.translation.x, msg.translation.y,
  msg.translation.z));}\<close>
\<close>

definition transformMsgToTF2 ::
  "(Quaternion \<Rightarrow> Vector3 \<Rightarrow> 't) \<Rightarrow> QuaternionMsg TransformMsg \<Rightarrow> 't \<Rightarrow> console
     \<Rightarrow> 't \<times> console" where
  "transformMsgToTF2 Transform_ctor msg bt c =
     (Transform_ctor
        (btQuaternion (QuaternionMsg.x (TransformMsg.rotation msg))
                      (QuaternionMsg.y (TransformMsg.rotation msg))
                      (QuaternionMsg.z (TransformMsg.rotation msg))
                      (QuaternionMsg.w (TransformMsg.rotation msg)))
        (btVector3 (Vector3Msg.x (TransformMsg.translation msg))
                   (Vector3Msg.y (TransformMsg.translation msg))
                   (Vector3Msg.z (TransformMsg.translation msg))),
      c)"

text \<open>
  \<^verbatim>\<open>transformTF2ToMsg(bt, msg) {vector3TF2ToMsg(bt.getOrigin(), msg.translation);
  quaternionTF2ToMsg(bt.getRotation(), msg.rotation);}\<close>
\<close>

definition transformTF2ToMsg ::
  "('t \<Rightarrow> Vector3) \<Rightarrow> ('t \<Rightarrow> Quaternion) \<Rightarrow> 't \<Rightarrow> QuaternionMsg TransformMsg \<Rightarrow> console
     \<Rightarrow> (error + QuaternionMsg) TransformMsg \<times> console" where
  "transformTF2ToMsg getOrigin getRotation bt msg c =
     (let translation1 = vector3TF2ToMsg (getOrigin bt) (TransformMsg.translation msg)
      in case quaternionTF2ToMsg (getRotation bt) (TransformMsg.rotation msg) c of
           (q0, r, c1) \<Rightarrow>
             (\<lparr>TransformMsg.translation = translation1, TransformMsg.rotation = r\<rparr>, c1))"

definition transformStampedMsgToTF2 ::
  "(Quaternion \<Rightarrow> Vector3 \<Rightarrow> 't) \<Rightarrow> QuaternionMsg TransformMsg TransformStampedMsg
     \<Rightarrow> 't StampedTransform \<Rightarrow> console \<Rightarrow> 't StampedTransform \<times> console" where
  "transformStampedMsgToTF2 Transform_ctor msg bt c =
     (case transformMsgToTF2 Transform_ctor (TransformStampedMsg.transform msg)
             (StampedTransform.data bt) c of
        (t, c1) \<Rightarrow>
          (bt\<lparr>StampedTransform.data := t,
              StampedTransform.stamp := Header.stamp (TransformStampedMsg.header msg),
              StampedTransform.frame_id := Header.frame_id (TransformStampedMsg.header msg),
              StampedTransform.child_frame_id := TransformStampedMsg.child_frame_id msg\<rparr>,
           c1))"

definition transformStampedTF2ToMsg ::
  "('t \<Rightarrow> Vector3) \<Rightarrow> ('t \<Rightarrow> Quaternion) \<Rightarrow> 't StampedTransform
     \<Rightarrow> QuaternionMsg TransformMsg TransformStampedMsg \<Rightarrow> console
     \<Rightarrow> (error + QuaternionMsg) TransformMsg TransformStampedMsg \<times> console" where
  "transformStampedTF2ToMsg getOrigin getRotation bt msg c =
     (case transformTF2ToMsg getOrigin getRotation (StampedTransform.data bt)
             (TransformStampedMsg.transform msg) c of
        (t, c1) \<Rightarrow>
          (\<lparr>TransformStampedMsg.header =
              (TransformStampedMsg.header msg)\<lparr>Header.stamp := StampedTransform.stamp bt,
                Header.frame_id := StampedTransform.frame_id bt\<rparr>,
            TransformStampedMsg.child_frame_id = StampedTransform.child_frame_id bt,
            TransformStampedMsg.transform = t\<rparr>,
           c1))"

definition poseMsgToTF2 ::
  "(Quaternion \<Rightarrow> Vector3 \<Rightarrow> 't) \<Rightarrow> QuaternionMsg PoseMsg \<Rightarrow> 't \<Rightarrow> console
     \<Rightarrow> 't \<times> console" where
  "poseMsgToTF2 Transform_ctor msg bt c =
     (Transform_ctor
        (btQuaternion (QuaternionMsg.x (PoseMsg.orientation msg))
                      (QuaternionMsg.y (PoseMsg.orientation msg))
                      (QuaternionMsg.z (PoseMsg.orientation msg))
                      (QuaternionMsg.w (PoseMsg.orientation msg)))
        (btVector3 (PointMsg.x (PoseMsg.position msg))
                   (PointMsg.y (PoseMsg.position msg))
                   (PointMsg.z (PoseMsg.position msg))),
      c)"

text \<open>
  \<^verbatim>\<open>poseTF2ToMsg(bt, msg) {pointTF2ToMsg(bt.getOrigin(), msg.position);
  quaternionTF2ToMsg(bt.getRotation(), msg.orientation);}\<close>
\<close>

definition poseTF2ToMsg ::
  "('t \<Rightarrow> Vector3) \<Rightarrow> ('t \<Rightarrow> Quaternion) \<Rightarrow> 't \<Rightarrow> QuaternionMsg PoseMsg \<Rightarrow> console
     \<Rightarrow> (error + QuaternionMsg) PoseMsg \<times> console" where
  "poseTF2ToMsg getOrigin getRotation bt msg c =
     (let position1 = pointTF2ToMsg (getOrigin bt) (PoseMsg.position msg)
      in case quaternionTF2ToMsg (getRotation bt) (PoseMsg.orientation msg) c of
           (q0, r, c1) \<Rightarrow> (\<lparr>PoseMsg.position = position1, PoseMsg.orientation = r\<rparr>, c1))"

definition poseStampedMsgToTF2 ::
  "(Quaternion \<Rightarrow> Vector3 \<Rightarrow> 't) \<Rightarrow> QuaternionMsg PoseMsg PoseStampedMsg \<Rightarrow> 't Stamped
     \<Rightarrow> console \<Rightarrow> 't Stamped \<times> console" where
  "poseStampedMsgToTF2 Transform_ctor msg bt c =
     (case poseMsgToTF2 Transform_ctor (PoseStampedMsg.pose msg) (Stamped.data bt) c of
        (t, c1) \<Rightarrow>
          (bt\<lparr>Stamped.data := t,
              Stamped.stamp := Header.stamp (PoseStampedMsg.header msg),
              Stamped.frame_id := Header.frame_id (PoseStampedMsg.header msg)\<rparr>,
           c1))"

definition poseStampedTF2ToMsg ::
  "('t \<Rightarrow> Vector3) \<Rightarrow> ('t \<Rightarrow> Quaternion) \<Rightarrow> 't Stamped
     \<Rightarrow> QuaternionMsg PoseMsg PoseStampedMsg \<Rightarrow> console
     \<Rightarrow> (error + QuaternionMsg) PoseMsg PoseStampedMsg \<times> console" where
  "poseStampedTF2ToMsg getOrigin getRotation bt msg c =
     (case poseTF2ToMsg getOrigin getRotation (Stamped.data bt) (PoseStampedMsg.pose msg) c of
        (t, c1) \<Rightarrow>
          (\<lparr>PoseStampedMsg.header =
              (PoseStampedMsg.header msg)\<lparr>Header.stamp := Stamped.stamp bt,
                Header.frame_id := Stamped.frame_id bt\<rparr>,
            PoseStampedMsg.pose = t\<rparr>,
           c1))"

subsection \<open>Rotations: roll, pitch and yaw\<close>

text \<open>
  The helper functions of the header delegate to the LinearMath library: \<^verbatim>\<open>setRPY\<close> builds
  a quaternion from angles about the fixed axes X, Y and Z ("construct a Quaternion from Fixed
  angles", in the words of the header), \<^verbatim>\<open>btMatrix3x3(q)\<close> is the rotation matrix of a
  quaternion, and \<^verbatim>\<open>getRPY\<close> reads the three angles back from a matrix.
\<close>

text \<open>Modelled from the spec: \<^verbatim>\<open>btQuaternion::setRPY\<close>, "build a Quaternion from
  roll/pitch/yaw": the rotation by \<open>roll\<close> about X, then by \<open>pitch\<close> about Y, then by \<open>yaw\<close>
  about Z, written out in the sines and cosines of the half angles. The axes are the fixed
  ones, as the header says; the specification speaks of an intrinsic convention, which gives
  the same quaternion whenever roll and pitch are zero, the only case the properties below
  use.\<close>

definition setRPY :: "btScalar \<Rightarrow> btScalar \<Rightarrow> btScalar \<Rightarrow> Quaternion" where
  "setRPY roll pitch yaw =
     (let halfYaw = yaw * 0.5; halfPitch = pitch * 0.5; halfRoll = roll * 0.5;
          cosYaw = cos halfYaw; sinYaw = sin halfYaw;
          cosPitch = cos halfPitch; sinPitch = sin halfPitch;
          cosRoll = cos halfRoll; sinRoll = sin halfRoll
      in btQuaternion (sinRoll * cosPitch * cosYaw - cosRoll * sinPitch * sinYaw)
                      (cosRoll * sinPitch * cosYaw + sinRoll * cosPitch * sinYaw)
                      (cosRoll * cosPitch * sinYaw - sinRoll * sinPitch * cosYaw)
                      (cosRoll * cosPitch * cosYaw + sinRoll * sinPitch * sinYaw))"

text \<open>Modelled from the spec: the product of two quaternions (\<^verbatim>\<open>btQuaternion::operator*=\<close>),
  the composition of rotations.\<close>

definition mult_qq :: "Quaternion \<Rightarrow> Quaternion \<Rightarrow> Quaternion" where
  "mult_qq p q =
     btQuaternion
       (Quaternion.w p * Quaternion.x q + Quaternion.x p * Quaternion.w q
          + Quaternion.y p * Quaternion.z q - Quaternion.z p * Quaternion.y q)
       (Quaternion.w p * Quaternion.y q + Quaternion.y p * Quaternion.w q
          + Quaternion.z p * Quaternion.x q - Quaternion.x p * Quaternion.z q)
       (Quaternion.w p * Quaternion.z q + Quaternion.z p * Quaternion.w q
          + Quaternion.x p * Quaternion.y q - Quaternion.y p * Quaternion.x q)
       (Quaternion.w p * Quaternion.w q - Quaternion.x p * Quaternion.x q
          - Quaternion.y p * Quaternion.y q - Quaternion.z p * Quaternion.z q)"

text \<open>Modelled from the spec: the product of a quaternion and a vector
  (\<^verbatim>\<open>operator*(const btQuaternion&, const btVector3&)\<close>), the vector taken as a quaternion
  with \<open>w = 0\<close>.\<close>

definition mult_qv :: "Quaternion \<Rightarrow> Vector3 \<Rightarrow> Quaternion" where
  "mult_qv q v =
     btQuaternion
       (Quaternion.w q * Vector3.x v + Quaternion.y q * Vector3.z v
          - Quaternion.z q * Vector3.y v)
       (Quaternion.w q * Vector3.y v + Quaternion.z q * Vector3.x v
          - Quaternion.x q * Vector3.z v)
       (Quaternion.w q * Vector3.z v + Quaternion.x q * Vector3.y v
          - Quaternion.y q * Vector3.x v)
       (- Quaternion.x q * Vector3.x v - Quaternion.y q * Vector3.y v
          - Quaternion.z q * Vector3.z v)"

text \<open>Modelled from the spec: \<^verbatim>\<open>btQuaternion::inverse\<close>, the conjugate, which is the
  inverse rotation.\<close>

definition inverse_q :: "Quaternion \<Rightarrow> Quaternion" where
  "inverse_q q =
     btQuaternion (- Quaternion.x q) (- Quaternion.y q) (- Quaternion.z q) (Quaternion.w q)"

text \<open>Modelled from the spec: \<^verbatim>\<open>quatRotate\<close>, a quaternion "applied to" a vector: the
  vector part of \<open>q v q\<^sup>-\<^sup>1\<close>.\<close>

definition quatRotate :: "Quaternion \<Rightarrow> Vector3 \<Rightarrow> Vector3" where
  "quatRotate rot v =
     (let q = mult_qq (mult_qv rot v) (inverse_q rot)
      in btVector3 (Quaternion.x q) (Quaternion.y q) (Quaternion.z q))"

text \<open>Modelled from the spec: \<^verbatim>\<open>btMatrix3x3\<close>, the rotation matrix, three rows
  \<^verbatim>\<open>m_el[0]\<close>, \<^verbatim>\<open>m_el[1]\<close>, \<^verbatim>\<open>m_el[2]\<close>.\<close>

record Matrix3x3 =
  m_el0 :: Vector3
  m_el1 :: Vector3
  m_el2 :: Vector3

text \<open>Modelled from the spec: the "rotation-matrix construction" \<^verbatim>\<open>btMatrix3x3(q)\<close>
  (\<^verbatim>\<open>setRotation\<close>): the matrix of the rotation of \<open>q\<close>, the products of the components
  scaled by \<open>2 / length2 q\<close>, which is a division by zero for the zero quaternion.\<close>

definition btMatrix3x3 :: "Quaternion \<Rightarrow> error + Matrix3x3" where
  "btMatrix3x3 q =
     (let d = length2 q in
      if d = 0 then Inl DivisionByZero
      else
        let s = 2 / d;
            xs = Quaternion.x q * s; ys = Quaternion.y q * s; zs = Quaternion.z q * s;
            wx = Quaternion.w q * xs; wy = Quaternion.w q * ys; wz = Quaternion.w q * zs;
            xx = Quaternion.x q * xs; xy = Quaternion.x q * ys; xz = Quaternion.x q * zs;
            yy = Quaternion.y q * ys; yz = Quaternion.y q * zs; zz = Quaternion.z q * zs
        in Inr \<lparr>m_el0 = btVector3 (1 - (yy + zz)) (xy - wz) (xz + wy),
                 m_el1 = btVector3 (xy + wz) (1 - (xx + zz)) (yz - wx),
                 m_el2 = btVector3 (xz - wy) (yz + wx) (1 - (xx + yy))\<rparr>)"

text \<open>Modelled from the spec: the product of a matrix and a vector
  (\<^verbatim>\<open>operator*(const btMatrix3x3&, const btVector3&)\<close>), the rotation matrix "applied to" a
  vector: the dot products of the rows with the vector.\<close>

definition mult_mv :: "Matrix3x3 \<Rightarrow> Vector3 \<Rightarrow> Vector3" where
  "mult_mv m v =
     btVector3
       (Vector3.x (m_el0 m) * Vector3.x v + Vector3.y (m_el0 m) * Vector3.y v
          + Vector3.z (m_el0 m) * Vector3.z v)
       (Vector3.x (m_el1 m) * Vector3.x v + Vector3.y (m_el1 m) * Vector3.y v
          + Vector3.z (m_el1 m) * Vector3.z v)
       (Vector3.x (m_el2 m) * Vector3.x v + Vector3.y (m_el2 m) * Vector3.y v
          + Vector3.z (m_el2 m) * Vector3.z v)"

text \<open>Modelled from the spec: \<^verbatim>\<open>btAtan2\<close>, the angle in \<open>(-\<pi>, \<pi>]\<close> of the point with
  abscissa \<open>b\<close> and ordinate \<open>a\<close>, and \<open>0\<close> at the origin.\<close>

definition btAtan2 :: "btScalar \<Rightarrow> btScalar \<Rightarrow> btScalar" where
  "btAtan2 a b =
     (if 0 < b then arctan (a / b)
      else if b < 0 then (if 0 \<le> a then arctan (a / b) + pi else arctan (a / b) - pi)
      else if 0 < a then pi / 2
      else if a < 0 then - (pi / 2)
      else 0)"

text \<open>Modelled from the spec: \<^verbatim>\<open>btMatrix3x3::getRPY\<close>, the "roll/pitch/yaw
  decomposition" of a rotation matrix about the fixed axes X, Y and Z, as the triple
  \<open>(roll, pitch, yaw)\<close>. Where the pitch is a right angle the yaw is taken to be zero and the
  roll carries the whole rotation about the vertical; this header reads the yaw only.\<close>

definition getRPY :: "Matrix3x3 \<Rightarrow> btScalar \<times> btScalar \<times> btScalar" where
  "getRPY m =
     (if fabs (Vector3.x (m_el2 m)) \<ge> 1
      then (if Vector3.x (m_el2 m) < 0
            then (btAtan2 (Vector3.y (m_el0 m)) (Vector3.z (m_el0 m)), pi / 2, 0)
            else (btAtan2 (- Vector3.y (m_el0 m)) (- Vector3.z (m_el0 m)), - pi / 2, 0))
      else
        (let pitch = - arcsin (Vector3.x (m_el2 m));
             roll = btAtan2 (Vector3.y (m_el2 m) / cos pitch) (Vector3.z (m_el2 m) / cos pitch);
             yaw = btAtan2 (Vector3.x (m_el1 m) / cos pitch) (Vector3.x (m_el0 m) / cos pitch)
         in (roll, pitch, yaw)))"

subsection \<open>Helper functions\<close>

text \<open>
  \<^verbatim>\<open>getYaw(const Quaternion& bt_q)\<close>:
  \<^verbatim>\<open>btMatrix3x3(bt_q).getRPY(useless_roll, useless_pitch, yaw); return yaw;\<close>
\<close>

definition getYaw :: "Quaternion \<Rightarrow> error + btScalar" where
  "getYaw bt_q =
     (case btMatrix3x3 bt_q of
        Inl e \<Rightarrow> Inl e
      | Inr m \<Rightarrow> (case getRPY m of (useless_roll, useless_pitch, yaw) \<Rightarrow> Inr yaw))"

text \<open>
  \<^verbatim>\<open>getYaw(const geometry_msgs::Quaternion& msg_q)\<close>; \<open>bt_q\<close> is the local variable, which the
  conversion overwrites.
\<close>

definition getYaw_msg ::
  "QuaternionMsg \<Rightarrow> Quaternion \<Rightarrow> console \<Rightarrow> (error + btScalar) \<times> console" where
  "getYaw_msg msg_q bt_q c =
     (case quaternionMsgToTF2 msg_q bt_q c of
        (Inl e, c1) \<Rightarrow> (Inl e, c1)
      | (Inr bt_q1, c1) \<Rightarrow> (getYaw bt_q1, c1))"

definition createQuaternionFromRPY :: "btScalar \<Rightarrow> btScalar \<Rightarrow> btScalar \<Rightarrow> Quaternion" where
  "createQuaternionFromRPY roll pitch yaw = setRPY roll pitch yaw"

definition createQuaternionFromYaw :: "btScalar \<Rightarrow> Quaternion" where
  "createQuaternionFromYaw yaw = setRPY 0.0 0.0 yaw"

text \<open>
  In the two functions that return a message, \<open>q_msg\<close> is the default-constructed message that
  the conversion fills.
\<close>

definition createQuaternionMsgFromYaw ::
  "btScalar \<Rightarrow> QuaternionMsg \<Rightarrow> console \<Rightarrow> (error + QuaternionMsg) \<times> console" where
  "createQuaternionMsgFromYaw yaw q_msg c =
     (let q = setRPY 0.0 0.0 yaw
      in case quaternionTF2ToMsg q q_msg c of (q0, r, c1) \<Rightarrow> (r, c1))"

definition createQuaternionMsgFromRollPitchYaw ::
  "btScalar \<Rightarrow> btScalar \<Rightarrow> btScalar \<Rightarrow> QuaternionMsg \<Rightarrow> console
     \<Rightarrow> (error + QuaternionMsg) \<times> console" where
  "createQuaternionMsgFromRollPitchYaw roll pitch yaw q_msg c =
     (case quaternionTF2ToMsg (createQuaternionFromRPY roll pitch yaw) q_msg c of
        (q0, r, c1) \<Rightarrow> (r, c1))"

definition createIdentityQuaternion :: Quaternion where
  "createIdentityQuaternion = setRPY 0 0 0"

section \<open>Properties\<close>

subsection \<open>Round trips of vectors and points\<close>

lemma vector3MsgToTF2_fields:
  "Vector3.x (vector3MsgToTF2 m b) = Vector3Msg.x m"
  "Vector3.y (vector3MsgToTF2 m b) = Vector3Msg.y m"
  "Vector3.z (vector3MsgToTF2 m b) = Vector3Msg.z m"
  by (simp_all add: vector3MsgToTF2_def btVector3_def)

lemma pointMsgToTF2_fields:
  "Vector3.x (pointMsgToTF2 m b) = PointMsg.x m"
  "Vector3.y (pointMsgToTF2 m b) = PointMsg.y m"
  "Vector3.z (pointMsgToTF2 m b) = PointMsg.z m"
  by (simp_all add: pointMsgToTF2_def btVector3_def)

text \<open>
  Claim C4. For every Vector3 message and every Point message, the conversion to the math
  type followed by the conversion back gives a message with the original \<open>x\<close>, \<open>y\<close> and \<open>z\<close>
  (and so the original message), whatever the output parameters held before: the intermediate
  vector carries the three fields themselves, with no transformation applied.
\<close>

theorem vector3_point_roundtrip:
  fixes msg_v out_v :: Vector3Msg and msg_p out_p :: PointMsg
  shows "vector3MsgToTF2 msg_v bt_v
           = btVector3 (Vector3Msg.x msg_v) (Vector3Msg.y msg_v) (Vector3Msg.z msg_v)
       \<and> vector3TF2ToMsg (vector3MsgToTF2 msg_v bt_v) out_v = msg_v
       \<and> pointMsgToTF2 msg_p bt_p
           = btVector3 (PointMsg.x msg_p) (PointMsg.y msg_p) (PointMsg.z msg_p)
       \<and> pointTF2ToMsg (pointMsgToTF2 msg_p bt_p) out_p = msg_p"
proof -
  have v: "vector3TF2ToMsg (vector3MsgToTF2 msg_v bt_v) out_v = msg_v"
    by (simp add: vector3TF2ToMsg_def vector3MsgToTF2_fields)
  have p: "pointTF2ToMsg (pointMsgToTF2 msg_p bt_p) out_p = msg_p"
    by (simp add: pointTF2ToMsg_def pointMsgToTF2_fields)
  show ?thesis
    using v p by (simp add: vector3MsgToTF2_def pointMsgToTF2_def)
qed

subsection \<open>Squared length and normalization\<close>

lemma tolerance_above_tenth: "1 / 10 < QUATERNION_TOLERANCE"
  by (simp add: QUATERNION_TOLERANCE_def)

lemma length2_btQuaternion: "length2 (btQuaternion a b c d) = a * a + b * b + c * c + d * d"
  by (simp add: length2_def btQuaternion_def)

lemma length2_nonneg: "0 \<le> length2 q"
  by (simp add: length2_def)

lemma length_q_zero_iff: "length_q q = 0 \<longleftrightarrow> length2 q = 0"
  by (simp add: length_q_def)

lemma normalize_q_unit:
  assumes "length2 q \<noteq> 0"
  shows "\<exists>n. normalize_q q = Inr n \<and> length2 n = 1"
proof -
  let ?l = "length_q q"
  have pos: "0 < length2 q" using assms length2_nonneg [of q] by simp
  have l2: "?l * ?l = length2 q" using pos by (simp add: length_q_def)
  have lnz: "?l \<noteq> 0" using assms by (simp add: length_q_zero_iff)
  let ?n = "btQuaternion (Quaternion.x q * (1 / ?l)) (Quaternion.y q * (1 / ?l))
              (Quaternion.z q * (1 / ?l)) (Quaternion.w q * (1 / ?l))"
  have n: "normalize_q q = Inr ?n" using lnz by (simp add: normalize_q_def)
  have "length2 ?n = length2 q * ((1 / ?l) * (1 / ?l))"
    unfolding length2_btQuaternion unfolding length2_def by (simp add: algebra_simps)
  also have "\<dots> = length2 q / (?l * ?l)" by simp
  also have "\<dots> = 1" using l2 assms by simp
  finally have "length2 ?n = 1" .
  with n show ?thesis by blast
qed

lemma normalize_q_zero: "length2 q = 0 \<Longrightarrow> normalize_q q = Inl DivisionByZero"
  by (simp add: normalize_q_def length_q_def)


lemma length2_msg:
  "length2 (btQuaternion (QuaternionMsg.x m) (QuaternionMsg.y m) (QuaternionMsg.z m)
              (QuaternionMsg.w m))
     = (QuaternionMsg.x m)\<^sup>2 + (QuaternionMsg.y m)\<^sup>2 + (QuaternionMsg.z m)\<^sup>2
         + (QuaternionMsg.w m)\<^sup>2"
  by (simp add: length2_btQuaternion power2_eq_square)

subsection \<open>The test of the squared length\<close>

lemma quaternionMsgToTF2_beyond:
  assumes "fabs (length2 (btQuaternion (QuaternionMsg.x msg) (QuaternionMsg.y msg)
                    (QuaternionMsg.z msg) (QuaternionMsg.w msg)) - 1) > QUATERNION_TOLERANCE"
  shows "quaternionMsgToTF2 msg bt c
           = (normalize_q (btQuaternion (QuaternionMsg.x msg) (QuaternionMsg.y msg)
                             (QuaternionMsg.z msg) (QuaternionMsg.w msg)),
              c @ [''MSG to TF2: Quaternion Not Properly Normalized''])"
  using assms by (simp add: quaternionMsgToTF2_def ROS_WARN_def)

lemma quaternionTF2ToMsg_within:
  assumes "\<not> fabs (length2 bt - 1) > QUATERNION_TOLERANCE"
  shows "quaternionTF2ToMsg bt msg c
           = (bt,
              Inr (msg\<lparr>QuaternionMsg.x := Quaternion.x bt, QuaternionMsg.y := Quaternion.y bt,
                       QuaternionMsg.z := Quaternion.z bt, QuaternionMsg.w := Quaternion.w bt\<rparr>),
              c)"
  using assms by (simp add: quaternionTF2ToMsg_def)

lemma quaternionTF2ToMsg_beyond:
  assumes "fabs (length2 bt - 1) > QUATERNION_TOLERANCE"
  shows "quaternionTF2ToMsg bt msg c
           = (bt,
              (case normalize_q bt of
                 Inl e \<Rightarrow> Inl e
               | Inr n \<Rightarrow>
                   Inr (msg\<lparr>QuaternionMsg.x := Quaternion.x n, QuaternionMsg.y := Quaternion.y n,
                            QuaternionMsg.z := Quaternion.z n, QuaternionMsg.w := Quaternion.w n\<rparr>)),
              c @ [''TF2 to MSG: Quaternion Not Properly Normalized''])"
  using assms by (simp add: quaternionTF2ToMsg_def ROS_WARN_def split: sum.split)

lemma beyond_margin:
  "\<bar>l - 1\<bar> \<ge> QUATERNION_TOLERANCE + 1 / 10 ^ 12 \<Longrightarrow> fabs (l - 1) > QUATERNION_TOLERANCE"
  by (simp add: fabs_def)

lemma within_margin:
  "\<bar>l - 1\<bar> \<le> QUATERNION_TOLERANCE - 1 / 10 ^ 12 \<Longrightarrow> \<not> fabs (l - 1) > QUATERNION_TOLERANCE"
  by (simp add: fabs_def)

lemma in_range_nonzero: "1 / 10 ^ 300 \<le> l \<Longrightarrow> l \<noteq> (0::real)"
proof -
  assume "1 / 10 ^ 300 \<le> l"
  moreover have "(0::real) < 1 / 10 ^ 300" by simp
  ultimately show "l \<noteq> 0" by linarith
qed

subsection \<open>Conversion of a quaternion message\<close>

text \<open>
  Claim C1, as amended. The tolerance of the code is the single-precision literal
  \<^verbatim>\<open>0.1f\<close>, slightly more than one tenth. For every quaternion message whose squared length
  deviates from 1 by at least \<open>QUATERNION_TOLERANCE + 10\<^sup>-\<^sup>1\<^sup>2\<close>, \<open>quaternionMsgToTF2\<close> emits
  exactly one warning, the console growing by that one line; when the squared length lies
  between \<open>10\<^sup>-\<^sup>3\<^sup>0\<^sup>0\<close> and \<open>10\<^sup>3\<^sup>0\<^sup>0\<close> as well, it produces a quaternion of squared
  length 1. The margin and the two bounds are those of the double-precision computation:
  nearer to the tolerance the rounded sum can fall on the other side of it, and outside the
  bounds the squares overflow or underflow and the code returns no unit quaternion.
\<close>

theorem quaternionMsgToTF2_normalizes:
  "(let l = (QuaternionMsg.x msg)\<^sup>2 + (QuaternionMsg.y msg)\<^sup>2 + (QuaternionMsg.z msg)\<^sup>2
              + (QuaternionMsg.w msg)\<^sup>2
    in (\<bar>l - 1\<bar> \<ge> QUATERNION_TOLERANCE + 1 / 10 ^ 12 \<longrightarrow>
          snd (quaternionMsgToTF2 msg bt c)
            = c @ [''MSG to TF2: Quaternion Not Properly Normalized''])
     \<and> (1 / 10 ^ 300 \<le> l \<and> l \<le> 10 ^ 300
          \<and> \<bar>l - 1\<bar> \<ge> QUATERNION_TOLERANCE + 1 / 10 ^ 12 \<longrightarrow>
          (\<exists>q. quaternionMsgToTF2 msg bt c
                  = (Inr q, c @ [''MSG to TF2: Quaternion Not Properly Normalized''])
               \<and> length2 q = 1)))"
proof -
  let ?b = "btQuaternion (QuaternionMsg.x msg) (QuaternionMsg.y msg) (QuaternionMsg.z msg)
              (QuaternionMsg.w msg)"
  let ?l = "(QuaternionMsg.x msg)\<^sup>2 + (QuaternionMsg.y msg)\<^sup>2 + (QuaternionMsg.z msg)\<^sup>2
              + (QuaternionMsg.w msg)\<^sup>2"
  have l: "length2 ?b = ?l" by (rule length2_msg)
  have warn: "snd (quaternionMsgToTF2 msg bt c)
                = c @ [''MSG to TF2: Quaternion Not Properly Normalized'']"
    if "\<bar>?l - 1\<bar> \<ge> QUATERNION_TOLERANCE + 1 / 10 ^ 12"
  proof -
    from that have "fabs (length2 ?b - 1) > QUATERNION_TOLERANCE"
      unfolding l by (rule beyond_margin)
    from quaternionMsgToTF2_beyond [OF this, of bt c] show ?thesis by simp
  qed
  have unit: "\<exists>q. quaternionMsgToTF2 msg bt c
                  = (Inr q, c @ [''MSG to TF2: Quaternion Not Properly Normalized''])
               \<and> length2 q = 1"
    if "1 / 10 ^ 300 \<le> ?l" and "\<bar>?l - 1\<bar> \<ge> QUATERNION_TOLERANCE + 1 / 10 ^ 12"
  proof -
    from that(1) have "length2 ?b \<noteq> 0" unfolding l by (rule in_range_nonzero)
    then obtain n where n: "normalize_q ?b = Inr n" "length2 n = 1"
      using normalize_q_unit by blast
    from that(2) have "fabs (length2 ?b - 1) > QUATERNION_TOLERANCE"
      unfolding l by (rule beyond_margin)
    from quaternionMsgToTF2_beyond [OF this, of bt c] n show ?thesis by simp
  qed
  show ?thesis unfolding Let_def using warn unit by blast
qed

text \<open>
  The message of the specification, \<open>x = 1, y = 1, z = 0, w = 0\<close>, of squared length 2: the
  result has unit norm and the console holds exactly one warning. The zero message is warned
  about as well.
\<close>

theorem quaternionMsgToTF2_normalizes_witness:
  "(\<exists>q. quaternionMsgToTF2
          \<lparr>QuaternionMsg.x = 1, QuaternionMsg.y = 1, QuaternionMsg.z = 0, QuaternionMsg.w = 0\<rparr>
          (btQuaternion 0 0 0 1) []
        = (Inr q, [''MSG to TF2: Quaternion Not Properly Normalized''])
      \<and> length2 q = 1)
   \<and> snd (quaternionMsgToTF2
          \<lparr>QuaternionMsg.x = 0, QuaternionMsg.y = 0, QuaternionMsg.z = 0, QuaternionMsg.w = 0\<rparr>
          (btQuaternion 0 0 0 1) [])
      = [''MSG to TF2: Quaternion Not Properly Normalized'']"
proof -
  have a: "\<exists>q. quaternionMsgToTF2
          \<lparr>QuaternionMsg.x = 1, QuaternionMsg.y = 1, QuaternionMsg.z = 0, QuaternionMsg.w = 0\<rparr>
          (btQuaternion 0 0 0 1) []
        = (Inr q, [''MSG to TF2: Quaternion Not Properly Normalized''])
      \<and> length2 q = 1"
    using quaternionMsgToTF2_normalizes
      [of "\<lparr>QuaternionMsg.x = 1, QuaternionMsg.y = 1, QuaternionMsg.z = 0,
             QuaternionMsg.w = 0\<rparr>" "btQuaternion 0 0 0 1" "[]"]
    by (simp add: QUATERNION_TOLERANCE_def)
  have b: "snd (quaternionMsgToTF2
          \<lparr>QuaternionMsg.x = 0, QuaternionMsg.y = 0, QuaternionMsg.z = 0, QuaternionMsg.w = 0\<rparr>
          (btQuaternion 0 0 0 1) [])
      = [''MSG to TF2: Quaternion Not Properly Normalized'']"
    using quaternionMsgToTF2_normalizes
      [of "\<lparr>QuaternionMsg.x = 0, QuaternionMsg.y = 0, QuaternionMsg.z = 0,
             QuaternionMsg.w = 0\<rparr>" "btQuaternion 0 0 0 1" "[]"]
    by (simp add: QUATERNION_TOLERANCE_def)
  from a b show ?thesis by (rule conjI)
qed

text \<open>
  Claim C1 as stated fails at two messages whose squared length deviates from 1 by more than
  one tenth. The zero message, which is what a default-constructed message holds, is warned
  about and then divided by its length, zero: no unit quaternion results. The message
  \<open>x = 0.316227767, w = 1\<close> has squared length \<open>1.1000000006\<dots>\<close>, between \<open>1.1\<close> and
  \<open>1 + QUATERNION_TOLERANCE\<close>: it is copied as it is, without a warning.
\<close>

theorem quaternionMsgToTF2_counterexample:
  "\<bar>(0::real)\<^sup>2 + 0\<^sup>2 + 0\<^sup>2 + 0\<^sup>2 - 1\<bar> > 1 / 10
   \<and> quaternionMsgToTF2
        \<lparr>QuaternionMsg.x = 0, QuaternionMsg.y = 0, QuaternionMsg.z = 0, QuaternionMsg.w = 0\<rparr>
        (btQuaternion 0 0 0 1) []
      = (Inl DivisionByZero, [''MSG to TF2: Quaternion Not Properly Normalized''])
   \<and> \<bar>(316227767 / 1000000000 :: real)\<^sup>2 + 0\<^sup>2 + 0\<^sup>2 + 1\<^sup>2 - 1\<bar> > 1 / 10
   \<and> quaternionMsgToTF2
        \<lparr>QuaternionMsg.x = 316227767 / 1000000000, QuaternionMsg.y = 0, QuaternionMsg.z = 0,
         QuaternionMsg.w = 1\<rparr>
        (btQuaternion 0 0 0 1) []
      = (Inr (btQuaternion (316227767 / 1000000000) 0 0 1), [])
   \<and> length2 (btQuaternion (316227767 / 1000000000) 0 0 1) \<noteq> 1"
proof -
  have a: "quaternionMsgToTF2
        \<lparr>QuaternionMsg.x = 0, QuaternionMsg.y = 0, QuaternionMsg.z = 0, QuaternionMsg.w = 0\<rparr>
        (btQuaternion 0 0 0 1) []
      = (Inl DivisionByZero, [''MSG to TF2: Quaternion Not Properly Normalized''])"
    by (simp add: quaternionMsgToTF2_def length2_btQuaternion fabs_def QUATERNION_TOLERANCE_def
        normalize_q_zero ROS_WARN_def)
  have b: "quaternionMsgToTF2
        \<lparr>QuaternionMsg.x = 316227767 / 1000000000, QuaternionMsg.y = 0, QuaternionMsg.z = 0,
         QuaternionMsg.w = 1\<rparr>
        (btQuaternion 0 0 0 1) []
      = (Inr (btQuaternion (316227767 / 1000000000) 0 0 1), [])"
    by (simp add: quaternionMsgToTF2_def length2_btQuaternion fabs_def QUATERNION_TOLERANCE_def)
  have c: "length2 (btQuaternion (316227767 / 1000000000) 0 0 1) \<noteq> 1"
    by (simp add: length2_btQuaternion)
  show ?thesis using a b c by (simp add: power2_eq_square)
qed

subsection \<open>Conversion of a quaternion to a message\<close>

text \<open>
  Claim C3, as amended. The tolerance of the code is the single-precision literal
  \<^verbatim>\<open>0.1f\<close>. \<open>quaternionTF2ToMsg\<close> leaves the input quaternion unchanged. For every
  quaternion whose squared length deviates from 1 by at least
  \<open>QUATERNION_TOLERANCE + 10\<^sup>-\<^sup>1\<^sup>2\<close> it emits one warning; when the squared length lies between
  \<open>10\<^sup>-\<^sup>3\<^sup>0\<^sup>0\<close> and \<open>10\<^sup>3\<^sup>0\<^sup>0\<close> as well, it writes into the message the four fields of the
  normalized copy, a quaternion of unit norm. For every quaternion whose squared length
  deviates from 1 by at most \<open>QUATERNION_TOLERANCE - 10\<^sup>-\<^sup>1\<^sup>2\<close> it copies the four fields
  unchanged, without a warning. The margin and the bounds are those of the double-precision
  computation, as for the conversion of a message.
\<close>

theorem quaternionTF2ToMsg_cases:
  "fst (quaternionTF2ToMsg bt msg c) = bt
   \<and> (\<bar>length2 bt - 1\<bar> \<ge> QUATERNION_TOLERANCE + 1 / 10 ^ 12 \<longrightarrow>
        snd (snd (quaternionTF2ToMsg bt msg c))
          = c @ [''TF2 to MSG: Quaternion Not Properly Normalized''])
   \<and> (1 / 10 ^ 300 \<le> length2 bt \<and> length2 bt \<le> 10 ^ 300
        \<and> \<bar>length2 bt - 1\<bar> \<ge> QUATERNION_TOLERANCE + 1 / 10 ^ 12 \<longrightarrow>
      (\<exists>n. normalize_q bt = Inr n \<and> length2 n = 1
         \<and> quaternionTF2ToMsg bt msg c
             = (bt,
                Inr (msg\<lparr>QuaternionMsg.x := Quaternion.x n, QuaternionMsg.y := Quaternion.y n,
                         QuaternionMsg.z := Quaternion.z n, QuaternionMsg.w := Quaternion.w n\<rparr>),
                c @ [''TF2 to MSG: Quaternion Not Properly Normalized''])))
   \<and> (\<bar>length2 bt - 1\<bar> \<le> QUATERNION_TOLERANCE - 1 / 10 ^ 12 \<longrightarrow>
        quaternionTF2ToMsg bt msg c
          = (bt,
             Inr (msg\<lparr>QuaternionMsg.x := Quaternion.x bt, QuaternionMsg.y := Quaternion.y bt,
                      QuaternionMsg.z := Quaternion.z bt, QuaternionMsg.w := Quaternion.w bt\<rparr>),
             c))"
proof -
  have same: "fst (quaternionTF2ToMsg bt msg c) = bt"
    by (simp add: quaternionTF2ToMsg_def Let_def split: sum.split)
  have warn: "snd (snd (quaternionTF2ToMsg bt msg c))
          = c @ [''TF2 to MSG: Quaternion Not Properly Normalized'']"
    if "\<bar>length2 bt - 1\<bar> \<ge> QUATERNION_TOLERANCE + 1 / 10 ^ 12"
    using quaternionTF2ToMsg_beyond [OF beyond_margin [OF that], of msg c] by simp
  have unit: "\<exists>n. normalize_q bt = Inr n \<and> length2 n = 1
         \<and> quaternionTF2ToMsg bt msg c
             = (bt,
                Inr (msg\<lparr>QuaternionMsg.x := Quaternion.x n, QuaternionMsg.y := Quaternion.y n,
                         QuaternionMsg.z := Quaternion.z n, QuaternionMsg.w := Quaternion.w n\<rparr>),
                c @ [''TF2 to MSG: Quaternion Not Properly Normalized''])"
    if "1 / 10 ^ 300 \<le> length2 bt"
      and "\<bar>length2 bt - 1\<bar> \<ge> QUATERNION_TOLERANCE + 1 / 10 ^ 12"
  proof -
    from that(1) have "length2 bt \<noteq> 0" by (rule in_range_nonzero)
    then obtain n where n: "normalize_q bt = Inr n" "length2 n = 1"
      using normalize_q_unit by blast
    from quaternionTF2ToMsg_beyond [OF beyond_margin [OF that(2)], of msg c] n
    show ?thesis by simp
  qed
  have copy: "quaternionTF2ToMsg bt msg c
          = (bt,
             Inr (msg\<lparr>QuaternionMsg.x := Quaternion.x bt, QuaternionMsg.y := Quaternion.y bt,
                      QuaternionMsg.z := Quaternion.z bt, QuaternionMsg.w := Quaternion.w bt\<rparr>),
             c)"
    if "\<bar>length2 bt - 1\<bar> \<le> QUATERNION_TOLERANCE - 1 / 10 ^ 12"
    using quaternionTF2ToMsg_within [OF within_margin [OF that]] .
  show ?thesis using same warn unit copy by blast
qed

text \<open>
  The cases at work: the quaternion \<open>(1, 1, 0, 0)\<close> is written as
  \<open>(1 / sqrt 2, 1 / sqrt 2, 0, 0)\<close> after a warning, the zero quaternion is warned about, the
  unit quaternion \<open>(0, 0, 0, 1)\<close> is copied.
\<close>

theorem quaternionTF2ToMsg_cases_witness:
  "quaternionTF2ToMsg (btQuaternion 1 1 0 0)
      \<lparr>QuaternionMsg.x = 0, QuaternionMsg.y = 0, QuaternionMsg.z = 0, QuaternionMsg.w = 0\<rparr> []
     = (btQuaternion 1 1 0 0,
        Inr \<lparr>QuaternionMsg.x = 1 / sqrt 2, QuaternionMsg.y = 1 / sqrt 2, QuaternionMsg.z = 0,
             QuaternionMsg.w = 0\<rparr>,
        [''TF2 to MSG: Quaternion Not Properly Normalized''])
   \<and> snd (snd (quaternionTF2ToMsg (btQuaternion 0 0 0 0)
      \<lparr>QuaternionMsg.x = 0, QuaternionMsg.y = 0, QuaternionMsg.z = 0, QuaternionMsg.w = 0\<rparr> []))
     = [''TF2 to MSG: Quaternion Not Properly Normalized'']
   \<and> quaternionTF2ToMsg (btQuaternion 0 0 0 1)
      \<lparr>QuaternionMsg.x = 0, QuaternionMsg.y = 0, QuaternionMsg.z = 0, QuaternionMsg.w = 0\<rparr> []
     = (btQuaternion 0 0 0 1,
        Inr \<lparr>QuaternionMsg.x = 0, QuaternionMsg.y = 0, QuaternionMsg.z = 0, QuaternionMsg.w = 1\<rparr>,
        [])"
proof -
  have n: "normalize_q (btQuaternion 1 1 0 0) = Inr (btQuaternion (1 / sqrt 2) (1 / sqrt 2) 0 0)"
    by (simp add: normalize_q_def length_q_def length2_def btQuaternion_def)
  have a: "1 / 10 ^ 300 \<le> length2 (btQuaternion 1 1 0 0)
           \<and> length2 (btQuaternion 1 1 0 0) \<le> 10 ^ 300
           \<and> \<bar>length2 (btQuaternion 1 1 0 0) - 1\<bar> \<ge> QUATERNION_TOLERANCE + 1 / 10 ^ 12"
    by (simp add: length2_btQuaternion QUATERNION_TOLERANCE_def)
  have z: "\<bar>length2 (btQuaternion 0 0 0 0) - 1\<bar> \<ge> QUATERNION_TOLERANCE + 1 / 10 ^ 12"
    by (simp add: length2_btQuaternion QUATERNION_TOLERANCE_def)
  have b: "\<bar>length2 (btQuaternion 0 0 0 1) - 1\<bar> \<le> QUATERNION_TOLERANCE - 1 / 10 ^ 12"
    by (simp add: length2_btQuaternion QUATERNION_TOLERANCE_def)
  from quaternionTF2ToMsg_cases
    [of "btQuaternion 1 1 0 0"
        "\<lparr>QuaternionMsg.x = 0, QuaternionMsg.y = 0, QuaternionMsg.z = 0, QuaternionMsg.w = 0\<rparr>"
        "[]"] a n
  have 1: "quaternionTF2ToMsg (btQuaternion 1 1 0 0)
      \<lparr>QuaternionMsg.x = 0, QuaternionMsg.y = 0, QuaternionMsg.z = 0, QuaternionMsg.w = 0\<rparr> []
     = (btQuaternion 1 1 0 0,
        Inr \<lparr>QuaternionMsg.x = 1 / sqrt 2, QuaternionMsg.y = 1 / sqrt 2, QuaternionMsg.z = 0,
             QuaternionMsg.w = 0\<rparr>,
        [''TF2 to MSG: Quaternion Not Properly Normalized''])"
    by (auto simp: btQuaternion_def)
  from quaternionTF2ToMsg_cases
    [of "btQuaternion 0 0 0 0"
        "\<lparr>QuaternionMsg.x = 0, QuaternionMsg.y = 0, QuaternionMsg.z = 0, QuaternionMsg.w = 0\<rparr>"
        "[]"] z
  have 2: "snd (snd (quaternionTF2ToMsg (btQuaternion 0 0 0 0)
      \<lparr>QuaternionMsg.x = 0, QuaternionMsg.y = 0, QuaternionMsg.z = 0, QuaternionMsg.w = 0\<rparr> []))
     = [''TF2 to MSG: Quaternion Not Properly Normalized'']"
    by simp
  from quaternionTF2ToMsg_cases
    [of "btQuaternion 0 0 0 1"
        "\<lparr>QuaternionMsg.x = 0, QuaternionMsg.y = 0, QuaternionMsg.z = 0, QuaternionMsg.w = 0\<rparr>"
        "[]"] b
  have 3: "quaternionTF2ToMsg (btQuaternion 0 0 0 1)
      \<lparr>QuaternionMsg.x = 0, QuaternionMsg.y = 0, QuaternionMsg.z = 0, QuaternionMsg.w = 0\<rparr> []
     = (btQuaternion 0 0 0 1,
        Inr \<lparr>QuaternionMsg.x = 0, QuaternionMsg.y = 0, QuaternionMsg.z = 0, QuaternionMsg.w = 1\<rparr>,
        [])"
    by (simp add: btQuaternion_def)
  from 1 2 3 show ?thesis by (intro conjI)
qed

text \<open>
  Claim C3 as stated fails at two quaternions whose squared length deviates from 1 by more
  than one tenth. The squared length of \<open>(0.316227767, 0, 0, 1)\<close> is \<open>1.1000000006\<dots>\<close>, which
  is within \<open>QUATERNION_TOLERANCE\<close> of 1: the fields are copied as they are and no warning is
  emitted. The zero quaternion is warned about, and the normalization of the copy divides by
  zero: there is no normalized copy to write.
\<close>

theorem quaternionTF2ToMsg_counterexample:
  "\<bar>length2 (btQuaternion (316227767 / 1000000000) 0 0 1) - 1\<bar> > 1 / 10
   \<and> quaternionTF2ToMsg (btQuaternion (316227767 / 1000000000) 0 0 1)
        \<lparr>QuaternionMsg.x = 0, QuaternionMsg.y = 0, QuaternionMsg.z = 0, QuaternionMsg.w = 0\<rparr> []
      = (btQuaternion (316227767 / 1000000000) 0 0 1,
         Inr \<lparr>QuaternionMsg.x = 316227767 / 1000000000, QuaternionMsg.y = 0, QuaternionMsg.z = 0,
              QuaternionMsg.w = 1\<rparr>,
         [])
   \<and> \<bar>length2 (btQuaternion 0 0 0 0) - 1\<bar> > 1 / 10
   \<and> quaternionTF2ToMsg (btQuaternion 0 0 0 0)
        \<lparr>QuaternionMsg.x = 0, QuaternionMsg.y = 0, QuaternionMsg.z = 0, QuaternionMsg.w = 0\<rparr> []
      = (btQuaternion 0 0 0 0, Inl DivisionByZero,
         [''TF2 to MSG: Quaternion Not Properly Normalized''])"
proof -
  have w: "\<not> fabs (length2 (btQuaternion (316227767 / 1000000000) 0 0 1) - 1)
             > QUATERNION_TOLERANCE"
    by (simp add: length2_btQuaternion fabs_def QUATERNION_TOLERANCE_def)
  have z: "fabs (length2 (btQuaternion 0 0 0 0) - 1) > QUATERNION_TOLERANCE"
    by (simp add: length2_btQuaternion fabs_def QUATERNION_TOLERANCE_def)
  have zn: "normalize_q (btQuaternion 0 0 0 0) = Inl DivisionByZero"
    by (simp add: normalize_q_zero length2_btQuaternion)
  show ?thesis
    using quaternionTF2ToMsg_within [OF w] quaternionTF2ToMsg_beyond [OF z] zn
    by (simp add: length2_def btQuaternion_def)
qed

subsection \<open>Round trip of a unit quaternion message\<close>

text \<open>
  Claim C5. For every quaternion message whose squared length is within 0.1 of 1, the
  conversion to the math type takes no normalization branch and emits no warning, the
  quaternion holds the four fields of the message, and the conversion back writes these four
  fields: the message that comes back is the original one, whatever the output parameters
  held before.
\<close>

theorem quaternion_roundtrip_unit:
  fixes msg msg_out :: QuaternionMsg
  assumes "\<bar>(QuaternionMsg.x msg)\<^sup>2 + (QuaternionMsg.y msg)\<^sup>2 + (QuaternionMsg.z msg)\<^sup>2
             + (QuaternionMsg.w msg)\<^sup>2 - 1\<bar> \<le> 1 / 10"
  shows "quaternionMsgToTF2 msg bt c
           = (Inr (btQuaternion (QuaternionMsg.x msg) (QuaternionMsg.y msg)
                     (QuaternionMsg.z msg) (QuaternionMsg.w msg)), c)
       \<and> quaternionTF2ToMsg
            (btQuaternion (QuaternionMsg.x msg) (QuaternionMsg.y msg)
               (QuaternionMsg.z msg) (QuaternionMsg.w msg)
            ) msg_out c
           = (btQuaternion (QuaternionMsg.x msg) (QuaternionMsg.y msg)
                (QuaternionMsg.z msg) (QuaternionMsg.w msg),
              Inr msg, c)"
proof -
  let ?b = "btQuaternion (QuaternionMsg.x msg) (QuaternionMsg.y msg) (QuaternionMsg.z msg)
              (QuaternionMsg.w msg)"
  have "\<bar>length2 ?b - 1\<bar> \<le> 1 / 10" using assms by (simp add: length2_msg)
  then have in_tol: "\<not> fabs (length2 ?b - 1) > QUATERNION_TOLERANCE"
    using tolerance_above_tenth by (simp add: fabs_def)
  have fwd: "quaternionMsgToTF2 msg bt c = (Inr ?b, c)"
    using in_tol by (simp add: quaternionMsgToTF2_def)
  have bwd: "quaternionTF2ToMsg ?b msg_out c = (?b, Inr msg, c)"
    using quaternionTF2ToMsg_within [OF in_tol, of msg_out c] by (simp add: btQuaternion_def)
  from fwd bwd show ?thesis by (rule conjI)
qed

text \<open>The round trip of the identity rotation \<open>x = 0, y = 0, z = 0, w = 1\<close>.\<close>

theorem quaternion_roundtrip_unit_witness:
  "quaternionMsgToTF2
      \<lparr>QuaternionMsg.x = 0, QuaternionMsg.y = 0, QuaternionMsg.z = 0, QuaternionMsg.w = 1\<rparr>
      (btQuaternion 1 0 0 0) []
     = (Inr (btQuaternion 0 0 0 1), [])
   \<and> quaternionTF2ToMsg (btQuaternion 0 0 0 1)
        \<lparr>QuaternionMsg.x = 5, QuaternionMsg.y = 5, QuaternionMsg.z = 5, QuaternionMsg.w = 5\<rparr> []
     = (btQuaternion 0 0 0 1,
        Inr \<lparr>QuaternionMsg.x = 0, QuaternionMsg.y = 0, QuaternionMsg.z = 0, QuaternionMsg.w = 1\<rparr>,
        [])"
  using quaternion_roundtrip_unit
    [of "\<lparr>QuaternionMsg.x = 0, QuaternionMsg.y = 0, QuaternionMsg.z = 0, QuaternionMsg.w = 1\<rparr>"
        "btQuaternion 1 0 0 0" "[]"
        "\<lparr>QuaternionMsg.x = 5, QuaternionMsg.y = 5, QuaternionMsg.z = 5, QuaternionMsg.w = 5\<rparr>"]
  by simp

subsection \<open>Which conversions check the norm\<close>

lemma transformMsgToTF2_unchecked:
  "transformMsgToTF2 Transform_ctor msg bt c
     = (Transform_ctor
          (btQuaternion (QuaternionMsg.x (TransformMsg.rotation msg))
             (QuaternionMsg.y (TransformMsg.rotation msg))
             (QuaternionMsg.z (TransformMsg.rotation msg))
             (QuaternionMsg.w (TransformMsg.rotation msg)))
          (btVector3 (Vector3Msg.x (TransformMsg.translation msg))
             (Vector3Msg.y (TransformMsg.translation msg))
             (Vector3Msg.z (TransformMsg.translation msg))),
        c)"
  by (simp add: transformMsgToTF2_def)

lemma poseMsgToTF2_unchecked:
  "poseMsgToTF2 Transform_ctor msg bt c
     = (Transform_ctor
          (btQuaternion (QuaternionMsg.x (PoseMsg.orientation msg))
             (QuaternionMsg.y (PoseMsg.orientation msg))
             (QuaternionMsg.z (PoseMsg.orientation msg))
             (QuaternionMsg.w (PoseMsg.orientation msg)))
          (btVector3 (PointMsg.x (PoseMsg.position msg))
             (PointMsg.y (PoseMsg.position msg))
             (PointMsg.z (PoseMsg.position msg))),
        c)"
  by (simp add: poseMsgToTF2_def)

lemma transformStampedMsgToTF2_unchecked:
  "StampedTransform.data (fst (transformStampedMsgToTF2 Transform_ctor msg bt c))
     = fst (transformMsgToTF2 Transform_ctor (TransformStampedMsg.transform msg)
              (StampedTransform.data bt) c)
   \<and> snd (transformStampedMsgToTF2 Transform_ctor msg bt c) = c"
  by (simp add: transformStampedMsgToTF2_def transformMsgToTF2_def)

lemma poseStampedMsgToTF2_unchecked:
  "Stamped.data (fst (poseStampedMsgToTF2 Transform_ctor msg bt c))
     = fst (poseMsgToTF2 Transform_ctor (PoseStampedMsg.pose msg) (Stamped.data bt) c)
   \<and> snd (poseStampedMsgToTF2 Transform_ctor msg bt c) = c"
  by (simp add: poseStampedMsgToTF2_def poseMsgToTF2_def)

lemma quaternionStampedMsgToTF2_checks:
  "Stamped.data (fst (quaternionStampedMsgToTF2 msg bt c))
     = fst (quaternionMsgToTF2 (QuaternionStampedMsg.quaternion msg) (Stamped.data bt) c)
   \<and> snd (quaternionStampedMsgToTF2 msg bt c)
     = snd (quaternionMsgToTF2 (QuaternionStampedMsg.quaternion msg) (Stamped.data bt) c)"
  by (simp add: quaternionStampedMsgToTF2_def split: prod.split)

lemma quaternionStampedTF2ToMsg_checks:
  "QuaternionStampedMsg.quaternion (fst (quaternionStampedTF2ToMsg bt msg c))
     = fst (snd (quaternionTF2ToMsg (Stamped.data bt) (QuaternionStampedMsg.quaternion msg) c))
   \<and> snd (quaternionStampedTF2ToMsg bt msg c)
     = snd (snd (quaternionTF2ToMsg (Stamped.data bt)
                   (QuaternionStampedMsg.quaternion msg) c))"
  by (simp add: quaternionStampedTF2ToMsg_def split: prod.split)

lemma transformTF2ToMsg_checks:
  "TransformMsg.rotation (fst (transformTF2ToMsg getOrigin getRotation bt msg c))
     = fst (snd (quaternionTF2ToMsg (getRotation bt) (TransformMsg.rotation msg) c))
   \<and> snd (transformTF2ToMsg getOrigin getRotation bt msg c)
     = snd (snd (quaternionTF2ToMsg (getRotation bt) (TransformMsg.rotation msg) c))"
  by (simp add: transformTF2ToMsg_def Let_def split: prod.split)

lemma poseTF2ToMsg_checks:
  "PoseMsg.orientation (fst (poseTF2ToMsg getOrigin getRotation bt msg c))
     = fst (snd (quaternionTF2ToMsg (getRotation bt) (PoseMsg.orientation msg) c))
   \<and> snd (poseTF2ToMsg getOrigin getRotation bt msg c)
     = snd (snd (quaternionTF2ToMsg (getRotation bt) (PoseMsg.orientation msg) c))"
  by (simp add: poseTF2ToMsg_def Let_def split: prod.split)

lemma transformStampedTF2ToMsg_checks:
  "TransformStampedMsg.transform
       (fst (transformStampedTF2ToMsg getOrigin getRotation bt msg c))
     = fst (transformTF2ToMsg getOrigin getRotation (StampedTransform.data bt)
              (TransformStampedMsg.transform msg) c)
   \<and> snd (transformStampedTF2ToMsg getOrigin getRotation bt msg c)
     = snd (transformTF2ToMsg getOrigin getRotation (StampedTransform.data bt)
              (TransformStampedMsg.transform msg) c)"
  by (simp add: transformStampedTF2ToMsg_def split: prod.split)

lemma poseStampedTF2ToMsg_checks:
  "PoseStampedMsg.pose (fst (poseStampedTF2ToMsg getOrigin getRotation bt msg c))
     = fst (poseTF2ToMsg getOrigin getRotation (Stamped.data bt) (PoseStampedMsg.pose msg) c)
   \<and> snd (poseStampedTF2ToMsg getOrigin getRotation bt msg c)
     = snd (poseTF2ToMsg getOrigin getRotation (Stamped.data bt) (PoseStampedMsg.pose msg) c)"
  by (simp add: poseStampedTF2ToMsg_def split: prod.split)

lemma quaternionMsgToTF2_checks:
  fixes qmsg :: QuaternionMsg
  defines "l \<equiv> (QuaternionMsg.x qmsg)\<^sup>2 + (QuaternionMsg.y qmsg)\<^sup>2 + (QuaternionMsg.z qmsg)\<^sup>2
                + (QuaternionMsg.w qmsg)\<^sup>2"
  shows "(\<bar>l - 1\<bar> \<ge> QUATERNION_TOLERANCE + 1 / 10 ^ 12 \<longrightarrow>
            snd (quaternionMsgToTF2 qmsg qbt c)
              = c @ [''MSG to TF2: Quaternion Not Properly Normalized''])
       \<and> (1 / 10 ^ 300 \<le> l \<and> l \<le> 10 ^ 300
            \<and> \<bar>l - 1\<bar> \<ge> QUATERNION_TOLERANCE + 1 / 10 ^ 12 \<longrightarrow>
            (\<exists>q. normalize_q (btQuaternion (QuaternionMsg.x qmsg) (QuaternionMsg.y qmsg)
                                 (QuaternionMsg.z qmsg) (QuaternionMsg.w qmsg)) = Inr q
                 \<and> quaternionMsgToTF2 qmsg qbt c
                    = (Inr q, c @ [''MSG to TF2: Quaternion Not Properly Normalized''])
                 \<and> length2 q = 1))"
proof -
  let ?b = "btQuaternion (QuaternionMsg.x qmsg) (QuaternionMsg.y qmsg) (QuaternionMsg.z qmsg)
              (QuaternionMsg.w qmsg)"
  have l: "length2 ?b = l" unfolding l_def by (rule length2_msg)
  have warn: "snd (quaternionMsgToTF2 qmsg qbt c)
                = c @ [''MSG to TF2: Quaternion Not Properly Normalized'']"
    if "\<bar>l - 1\<bar> \<ge> QUATERNION_TOLERANCE + 1 / 10 ^ 12"
  proof -
    from that have "fabs (length2 ?b - 1) > QUATERNION_TOLERANCE"
      unfolding l by (rule beyond_margin)
    from quaternionMsgToTF2_beyond [OF this, of qbt c] show ?thesis by simp
  qed
  have unit: "\<exists>q. normalize_q ?b = Inr q
               \<and> quaternionMsgToTF2 qmsg qbt c
                  = (Inr q, c @ [''MSG to TF2: Quaternion Not Properly Normalized''])
               \<and> length2 q = 1"
    if "1 / 10 ^ 300 \<le> l" and "\<bar>l - 1\<bar> \<ge> QUATERNION_TOLERANCE + 1 / 10 ^ 12"
  proof -
    from that(1) have "length2 ?b \<noteq> 0" unfolding l by (rule in_range_nonzero)
    then obtain n where n: "normalize_q ?b = Inr n" "length2 n = 1"
      using normalize_q_unit by blast
    from that(2) have "fabs (length2 ?b - 1) > QUATERNION_TOLERANCE"
      unfolding l by (rule beyond_margin)
    from quaternionMsgToTF2_beyond [OF this, of qbt c] n show ?thesis by simp
  qed
  show ?thesis using warn unit by blast
qed

lemma quaternionTF2ToMsg_checks:
  "(\<bar>length2 bt - 1\<bar> \<ge> QUATERNION_TOLERANCE + 1 / 10 ^ 12 \<longrightarrow>
      snd (snd (quaternionTF2ToMsg bt msg c))
        = c @ [''TF2 to MSG: Quaternion Not Properly Normalized''])
   \<and> (1 / 10 ^ 300 \<le> length2 bt \<and> length2 bt \<le> 10 ^ 300
        \<and> \<bar>length2 bt - 1\<bar> \<ge> QUATERNION_TOLERANCE + 1 / 10 ^ 12 \<longrightarrow>
      (\<exists>n. normalize_q bt = Inr n \<and> length2 n = 1
         \<and> quaternionTF2ToMsg bt msg c
             = (bt,
                Inr (msg\<lparr>QuaternionMsg.x := Quaternion.x n, QuaternionMsg.y := Quaternion.y n,
                         QuaternionMsg.z := Quaternion.z n, QuaternionMsg.w := Quaternion.w n\<rparr>),
                c @ [''TF2 to MSG: Quaternion Not Properly Normalized''])))"
proof -
  have warn: "snd (snd (quaternionTF2ToMsg bt msg c))
          = c @ [''TF2 to MSG: Quaternion Not Properly Normalized'']"
    if "\<bar>length2 bt - 1\<bar> \<ge> QUATERNION_TOLERANCE + 1 / 10 ^ 12"
    using quaternionTF2ToMsg_beyond [OF beyond_margin [OF that], of msg c] by simp
  have unit: "\<exists>n. normalize_q bt = Inr n \<and> length2 n = 1
         \<and> quaternionTF2ToMsg bt msg c
             = (bt,
                Inr (msg\<lparr>QuaternionMsg.x := Quaternion.x n, QuaternionMsg.y := Quaternion.y n,
                         QuaternionMsg.z := Quaternion.z n, QuaternionMsg.w := Quaternion.w n\<rparr>),
                c @ [''TF2 to MSG: Quaternion Not Properly Normalized''])"
    if "1 / 10 ^ 300 \<le> length2 bt"
      and "\<bar>length2 bt - 1\<bar> \<ge> QUATERNION_TOLERANCE + 1 / 10 ^ 12"
  proof -
    from that(1) have "length2 bt \<noteq> 0" by (rule in_range_nonzero)
    then obtain n where n: "normalize_q bt = Inr n" "length2 n = 1"
      using normalize_q_unit by blast
    from quaternionTF2ToMsg_beyond [OF beyond_margin [OF that(2)], of msg c] n
    show ?thesis by simp
  qed
  show ?thesis using warn unit by blast
qed

text \<open>
  Claim C2, as amended. The conversions \<open>quaternionMsgToTF2\<close> and \<open>quaternionTF2ToMsg\<close>
  detect a squared-length deviation from 1 of at least \<open>QUATERNION_TOLERANCE + 10\<^sup>-\<^sup>1\<^sup>2\<close>
  (the tolerance being the single-precision literal \<^verbatim>\<open>0.1f\<close>) and log a warning, the zero
  quaternion included; when the squared length lies between \<open>10\<^sup>-\<^sup>3\<^sup>0\<^sup>0\<close> and \<open>10\<^sup>3\<^sup>0\<^sup>0\<close> as
  well, they normalize the quaternion to unit norm. The stamped quaternion conversions,
  \<open>transformTF2ToMsg\<close>, \<open>poseTF2ToMsg\<close> and the stamped versions of these two hand their
  quaternion to one of the two conversions above, and take its result and its console. The
  conversions \<open>transformMsgToTF2\<close> and \<open>poseMsgToTF2\<close>, and the stamped conversions that call
  them, make no check: the constructor of the transform receives the components of the
  message as they are, and the console is unchanged.
\<close>

theorem quaternion_check_by_conversion:
  "(let l = (QuaternionMsg.x qmsg)\<^sup>2 + (QuaternionMsg.y qmsg)\<^sup>2 + (QuaternionMsg.z qmsg)\<^sup>2
              + (QuaternionMsg.w qmsg)\<^sup>2
    in (\<bar>l - 1\<bar> \<ge> QUATERNION_TOLERANCE + 1 / 10 ^ 12 \<longrightarrow>
          snd (quaternionMsgToTF2 qmsg qbt c)
            = c @ [''MSG to TF2: Quaternion Not Properly Normalized''])
     \<and> (1 / 10 ^ 300 \<le> l \<and> l \<le> 10 ^ 300
          \<and> \<bar>l - 1\<bar> \<ge> QUATERNION_TOLERANCE + 1 / 10 ^ 12 \<longrightarrow>
          (\<exists>q. normalize_q (btQuaternion (QuaternionMsg.x qmsg) (QuaternionMsg.y qmsg)
                               (QuaternionMsg.z qmsg) (QuaternionMsg.w qmsg)) = Inr q
               \<and> quaternionMsgToTF2 qmsg qbt c
                  = (Inr q, c @ [''MSG to TF2: Quaternion Not Properly Normalized''])
               \<and> length2 q = 1)))
   \<and> (\<bar>length2 bt - 1\<bar> \<ge> QUATERNION_TOLERANCE + 1 / 10 ^ 12 \<longrightarrow>
        snd (snd (quaternionTF2ToMsg bt msg c))
          = c @ [''TF2 to MSG: Quaternion Not Properly Normalized''])
   \<and> (1 / 10 ^ 300 \<le> length2 bt \<and> length2 bt \<le> 10 ^ 300
        \<and> \<bar>length2 bt - 1\<bar> \<ge> QUATERNION_TOLERANCE + 1 / 10 ^ 12 \<longrightarrow>
      (\<exists>n. normalize_q bt = Inr n \<and> length2 n = 1
         \<and> quaternionTF2ToMsg bt msg c
             = (bt,
                Inr (msg\<lparr>QuaternionMsg.x := Quaternion.x n, QuaternionMsg.y := Quaternion.y n,
                         QuaternionMsg.z := Quaternion.z n, QuaternionMsg.w := Quaternion.w n\<rparr>),
                c @ [''TF2 to MSG: Quaternion Not Properly Normalized''])))
   \<and> (Stamped.data (fst (quaternionStampedMsgToTF2 qsmsg qsbt c))
         = fst (quaternionMsgToTF2 (QuaternionStampedMsg.quaternion qsmsg) (Stamped.data qsbt) c)
       \<and> snd (quaternionStampedMsgToTF2 qsmsg qsbt c)
         = snd (quaternionMsgToTF2 (QuaternionStampedMsg.quaternion qsmsg) (Stamped.data qsbt) c))
   \<and> (QuaternionStampedMsg.quaternion (fst (quaternionStampedTF2ToMsg qsbt qsmsg c))
         = fst (snd (quaternionTF2ToMsg (Stamped.data qsbt)
                       (QuaternionStampedMsg.quaternion qsmsg) c))
       \<and> snd (quaternionStampedTF2ToMsg qsbt qsmsg c)
         = snd (snd (quaternionTF2ToMsg (Stamped.data qsbt)
                       (QuaternionStampedMsg.quaternion qsmsg) c)))
   \<and> (TransformMsg.rotation (fst (transformTF2ToMsg getOrigin getRotation t tmsg c))
         = fst (snd (quaternionTF2ToMsg (getRotation t) (TransformMsg.rotation tmsg) c))
       \<and> snd (transformTF2ToMsg getOrigin getRotation t tmsg c)
         = snd (snd (quaternionTF2ToMsg (getRotation t) (TransformMsg.rotation tmsg) c)))
   \<and> (PoseMsg.orientation (fst (poseTF2ToMsg getOrigin getRotation t pmsg c))
         = fst (snd (quaternionTF2ToMsg (getRotation t) (PoseMsg.orientation pmsg) c))
       \<and> snd (poseTF2ToMsg getOrigin getRotation t pmsg c)
         = snd (snd (quaternionTF2ToMsg (getRotation t) (PoseMsg.orientation pmsg) c)))
   \<and> (TransformStampedMsg.transform
           (fst (transformStampedTF2ToMsg getOrigin getRotation tsbt tsmsg c))
         = fst (transformTF2ToMsg getOrigin getRotation (StampedTransform.data tsbt)
                  (TransformStampedMsg.transform tsmsg) c)
       \<and> snd (transformStampedTF2ToMsg getOrigin getRotation tsbt tsmsg c)
         = snd (transformTF2ToMsg getOrigin getRotation (StampedTransform.data tsbt)
                  (TransformStampedMsg.transform tsmsg) c))
   \<and> (PoseStampedMsg.pose (fst (poseStampedTF2ToMsg getOrigin getRotation psbt psmsg c))
         = fst (poseTF2ToMsg getOrigin getRotation (Stamped.data psbt)
                  (PoseStampedMsg.pose psmsg) c)
       \<and> snd (poseStampedTF2ToMsg getOrigin getRotation psbt psmsg c)
         = snd (poseTF2ToMsg getOrigin getRotation (Stamped.data psbt)
                  (PoseStampedMsg.pose psmsg) c))
   \<and> transformMsgToTF2 Transform_ctor tmsg t c
       = (Transform_ctor
            (btQuaternion (QuaternionMsg.x (TransformMsg.rotation tmsg))
               (QuaternionMsg.y (TransformMsg.rotation tmsg))
               (QuaternionMsg.z (TransformMsg.rotation tmsg))
               (QuaternionMsg.w (TransformMsg.rotation tmsg)))
            (btVector3 (Vector3Msg.x (TransformMsg.translation tmsg))
               (Vector3Msg.y (TransformMsg.translation tmsg))
               (Vector3Msg.z (TransformMsg.translation tmsg))),
          c)
   \<and> poseMsgToTF2 Transform_ctor pmsg t c
       = (Transform_ctor
            (btQuaternion (QuaternionMsg.x (PoseMsg.orientation pmsg))
               (QuaternionMsg.y (PoseMsg.orientation pmsg))
               (QuaternionMsg.z (PoseMsg.orientation pmsg))
               (QuaternionMsg.w (PoseMsg.orientation pmsg)))
            (btVector3 (PointMsg.x (PoseMsg.position pmsg))
               (PointMsg.y (PoseMsg.position pmsg))
               (PointMsg.z (PoseMsg.position pmsg))),
          c)
   \<and> (StampedTransform.data (fst (transformStampedMsgToTF2 Transform_ctor tsmsg tsbt c))
         = fst (transformMsgToTF2 Transform_ctor (TransformStampedMsg.transform tsmsg)
                  (StampedTransform.data tsbt) c)
       \<and> snd (transformStampedMsgToTF2 Transform_ctor tsmsg tsbt c) = c)
   \<and> (Stamped.data (fst (poseStampedMsgToTF2 Transform_ctor psmsg psbt c))
         = fst (poseMsgToTF2 Transform_ctor (PoseStampedMsg.pose psmsg) (Stamped.data psbt) c)
       \<and> snd (poseStampedMsgToTF2 Transform_ctor psmsg psbt c) = c)"
proof -
  note m = quaternionMsgToTF2_checks [where qmsg = qmsg and qbt = qbt and c = c]
  note q = quaternionTF2ToMsg_checks [where bt = bt and msg = msg and c = c]
  show ?thesis
    unfolding Let_def
    by (intro conjI m [THEN conjunct1] m [THEN conjunct2] q [THEN conjunct1]
        q [THEN conjunct2] quaternionStampedMsgToTF2_checks quaternionStampedTF2ToMsg_checks
        transformTF2ToMsg_checks poseTF2ToMsg_checks transformStampedTF2ToMsg_checks
        poseStampedTF2ToMsg_checks transformMsgToTF2_unchecked poseMsgToTF2_unchecked
        transformStampedMsgToTF2_unchecked poseStampedMsgToTF2_unchecked)
qed

text \<open>
  The two checking conversions at quaternions of squared length 2 and 25 and at the zero
  quaternion, and \<open>transformMsgToTF2\<close> at a rotation of squared length 2, with pairing for
  the constructor of the transform, which shows the two arguments it receives.
\<close>

theorem quaternion_check_by_conversion_witness:
  "(\<exists>q. quaternionMsgToTF2
            \<lparr>QuaternionMsg.x = 1, QuaternionMsg.y = 1, QuaternionMsg.z = 0, QuaternionMsg.w = 0\<rparr>
            (btQuaternion 0 0 0 1) []
          = (Inr q, [''MSG to TF2: Quaternion Not Properly Normalized''])
        \<and> length2 q = 1)
   \<and> (\<exists>n. length2 n = 1
        \<and> quaternionTF2ToMsg (btQuaternion 0 0 3 4)
            \<lparr>QuaternionMsg.x = 0, QuaternionMsg.y = 0, QuaternionMsg.z = 0, QuaternionMsg.w = 0\<rparr>
            []
          = (btQuaternion 0 0 3 4,
             Inr \<lparr>QuaternionMsg.x = Quaternion.x n, QuaternionMsg.y = Quaternion.y n,
                  QuaternionMsg.z = Quaternion.z n, QuaternionMsg.w = Quaternion.w n\<rparr>,
             [''TF2 to MSG: Quaternion Not Properly Normalized'']))
   \<and> snd (quaternionMsgToTF2
            \<lparr>QuaternionMsg.x = 0, QuaternionMsg.y = 0, QuaternionMsg.z = 0, QuaternionMsg.w = 0\<rparr>
            (btQuaternion 0 0 0 1) [])
      = [''MSG to TF2: Quaternion Not Properly Normalized'']
   \<and> snd (snd (quaternionTF2ToMsg (btQuaternion 0 0 0 0)
            \<lparr>QuaternionMsg.x = 0, QuaternionMsg.y = 0, QuaternionMsg.z = 0, QuaternionMsg.w = 0\<rparr>
            []))
      = [''TF2 to MSG: Quaternion Not Properly Normalized'']
   \<and> transformMsgToTF2 Pair
        \<lparr>translation = \<lparr>Vector3Msg.x = 5, Vector3Msg.y = 6, Vector3Msg.z = 7\<rparr>,
         rotation = \<lparr>QuaternionMsg.x = 1, QuaternionMsg.y = 1, QuaternionMsg.z = 0,
                     QuaternionMsg.w = 0\<rparr>\<rparr>
        (btQuaternion 0 0 0 1, btVector3 0 0 0) []
      = ((btQuaternion 1 1 0 0, btVector3 5 6 7), [])"
proof -
  note T = quaternion_check_by_conversion
    [where qmsg = "\<lparr>QuaternionMsg.x = 1, QuaternionMsg.y = 1, QuaternionMsg.z = 0,
                    QuaternionMsg.w = 0\<rparr>"
       and qbt = "btQuaternion 0 0 0 1" and c = "[]" and bt = "btQuaternion 0 0 3 4"
       and msg = "\<lparr>QuaternionMsg.x = 0, QuaternionMsg.y = 0, QuaternionMsg.z = 0,
                   QuaternionMsg.w = 0\<rparr>"
       and Transform_ctor = Pair
       and tmsg = "\<lparr>translation = \<lparr>Vector3Msg.x = 5, Vector3Msg.y = 6, Vector3Msg.z = 7\<rparr>,
                    rotation = \<lparr>QuaternionMsg.x = 1, QuaternionMsg.y = 1, QuaternionMsg.z = 0,
                                QuaternionMsg.w = 0\<rparr>\<rparr>"
       and t = "(btQuaternion 0 0 0 1, btVector3 0 0 0)"]
  note Z = quaternion_check_by_conversion
    [where qmsg = "\<lparr>QuaternionMsg.x = 0, QuaternionMsg.y = 0, QuaternionMsg.z = 0,
                    QuaternionMsg.w = 0\<rparr>"
       and qbt = "btQuaternion 0 0 0 1" and c = "[]" and bt = "btQuaternion 0 0 0 0"
       and msg = "\<lparr>QuaternionMsg.x = 0, QuaternionMsg.y = 0, QuaternionMsg.z = 0,
                   QuaternionMsg.w = 0\<rparr>"]
  have h2: "1 / 10 ^ 300 \<le> length2 (btQuaternion 0 0 3 4)
            \<and> length2 (btQuaternion 0 0 3 4) \<le> 10 ^ 300
            \<and> \<bar>length2 (btQuaternion 0 0 3 4) - 1\<bar> \<ge> QUATERNION_TOLERANCE + 1 / 10 ^ 12"
    by (simp add: length2_btQuaternion QUATERNION_TOLERANCE_def)
  have hz: "\<bar>length2 (btQuaternion 0 0 0 0) - 1\<bar> \<ge> QUATERNION_TOLERANCE + 1 / 10 ^ 12"
    by (simp add: length2_btQuaternion QUATERNION_TOLERANCE_def)
  from T [THEN conjunct1] have a: "\<exists>q. quaternionMsgToTF2
            \<lparr>QuaternionMsg.x = 1, QuaternionMsg.y = 1, QuaternionMsg.z = 0, QuaternionMsg.w = 0\<rparr>
            (btQuaternion 0 0 0 1) []
          = (Inr q, [''MSG to TF2: Quaternion Not Properly Normalized''])
        \<and> length2 q = 1"
    by (auto simp: QUATERNION_TOLERANCE_def Let_def)
  from T [THEN conjunct2, THEN conjunct2, THEN conjunct1] h2 have b: "\<exists>n. length2 n = 1
        \<and> quaternionTF2ToMsg (btQuaternion 0 0 3 4)
            \<lparr>QuaternionMsg.x = 0, QuaternionMsg.y = 0, QuaternionMsg.z = 0, QuaternionMsg.w = 0\<rparr>
            []
          = (btQuaternion 0 0 3 4,
             Inr \<lparr>QuaternionMsg.x = Quaternion.x n, QuaternionMsg.y = Quaternion.y n,
                  QuaternionMsg.z = Quaternion.z n, QuaternionMsg.w = Quaternion.w n\<rparr>,
             [''TF2 to MSG: Quaternion Not Properly Normalized''])"
    by auto
  from Z [THEN conjunct1] have z1: "snd (quaternionMsgToTF2
            \<lparr>QuaternionMsg.x = 0, QuaternionMsg.y = 0, QuaternionMsg.z = 0, QuaternionMsg.w = 0\<rparr>
            (btQuaternion 0 0 0 1) [])
      = [''MSG to TF2: Quaternion Not Properly Normalized'']"
    by (simp add: QUATERNION_TOLERANCE_def Let_def)
  from Z [THEN conjunct2, THEN conjunct1] hz have z2:
    "snd (snd (quaternionTF2ToMsg (btQuaternion 0 0 0 0)
            \<lparr>QuaternionMsg.x = 0, QuaternionMsg.y = 0, QuaternionMsg.z = 0, QuaternionMsg.w = 0\<rparr>
            []))
      = [''TF2 to MSG: Quaternion Not Properly Normalized'']"
    by simp
  from T have c: "transformMsgToTF2 Pair
        \<lparr>translation = \<lparr>Vector3Msg.x = 5, Vector3Msg.y = 6, Vector3Msg.z = 7\<rparr>,
         rotation = \<lparr>QuaternionMsg.x = 1, QuaternionMsg.y = 1, QuaternionMsg.z = 0,
                     QuaternionMsg.w = 0\<rparr>\<rparr>
        (btQuaternion 0 0 0 1, btVector3 0 0 0) []
      = ((btQuaternion 1 1 0 0, btVector3 5 6 7), [])"
    by simp
  from a b z1 z2 c show ?thesis by (intro conjI)
qed

text \<open>
  Claim C2 as stated fails. The components \<open>(1, 1, 0, 0)\<close>, of squared length 2, go through
  \<open>transformMsgToTF2\<close> and \<open>poseMsgToTF2\<close> to the constructor of the transform (pairing,
  here) as they are, and nothing is logged. A quaternion of squared length \<open>1.1000000006\<dots>\<close>
  deviates by more than one tenth and goes through \<open>quaternionStampedMsgToTF2\<close> without a
  warning, since the tolerance is \<^verbatim>\<open>0.1f\<close>. The zero quaternion is warned about by
  \<open>quaternionStampedTF2ToMsg\<close> but cannot be normalized: the message gets its header and no
  numbers for the quaternion.
\<close>

theorem quaternion_check_by_conversion_counterexample:
  "\<bar>length2 (btQuaternion 1 1 0 0) - 1\<bar> > 1 / 10
   \<and> transformMsgToTF2 Pair
        \<lparr>translation = \<lparr>Vector3Msg.x = 0, Vector3Msg.y = 0, Vector3Msg.z = 0\<rparr>,
         rotation = \<lparr>QuaternionMsg.x = 1, QuaternionMsg.y = 1, QuaternionMsg.z = 0,
                     QuaternionMsg.w = 0\<rparr>\<rparr>
        (btQuaternion 0 0 0 1, btVector3 0 0 0) []
      = ((btQuaternion 1 1 0 0, btVector3 0 0 0), [])
   \<and> poseMsgToTF2 Pair
        \<lparr>position = \<lparr>PointMsg.x = 0, PointMsg.y = 0, PointMsg.z = 0\<rparr>,
         orientation = \<lparr>QuaternionMsg.x = 1, QuaternionMsg.y = 1, QuaternionMsg.z = 0,
                        QuaternionMsg.w = 0\<rparr>\<rparr>
        (btQuaternion 0 0 0 1, btVector3 0 0 0) []
      = ((btQuaternion 1 1 0 0, btVector3 0 0 0), [])
   \<and> \<bar>length2 (btQuaternion (316227767 / 1000000000) 0 0 1) - 1\<bar> > 1 / 10
   \<and> quaternionStampedMsgToTF2
        \<lparr>QuaternionStampedMsg.header =
           \<lparr>Header.stamp = \<lparr>sec = 1, nsec = 2\<rparr>, Header.frame_id = ''map''\<rparr>,
         QuaternionStampedMsg.quaternion =
           \<lparr>QuaternionMsg.x = 316227767 / 1000000000, QuaternionMsg.y = 0,
            QuaternionMsg.z = 0, QuaternionMsg.w = 1\<rparr>\<rparr>
        (Stamped_default (btQuaternion 0 0 0 1)) []
      = (Stamped_full (Inr (btQuaternion (316227767 / 1000000000) 0 0 1))
           \<lparr>sec = 1, nsec = 2\<rparr> ''map'',
         [])
   \<and> \<bar>length2 (btQuaternion 0 0 0 0) - 1\<bar> > 1 / 10
   \<and> quaternionStampedTF2ToMsg
        (Stamped_full (btQuaternion 0 0 0 0) \<lparr>sec = 1, nsec = 2\<rparr> ''map'')
        \<lparr>QuaternionStampedMsg.header =
           \<lparr>Header.stamp = \<lparr>sec = 0, nsec = 0\<rparr>, Header.frame_id = ''''\<rparr>,
         QuaternionStampedMsg.quaternion =
           \<lparr>QuaternionMsg.x = 0, QuaternionMsg.y = 0, QuaternionMsg.z = 0,
            QuaternionMsg.w = 0\<rparr>\<rparr>
        []
      = (\<lparr>QuaternionStampedMsg.header =
            \<lparr>Header.stamp = \<lparr>sec = 1, nsec = 2\<rparr>, Header.frame_id = ''map''\<rparr>,
          QuaternionStampedMsg.quaternion = Inl DivisionByZero\<rparr>,
         [''TF2 to MSG: Quaternion Not Properly Normalized''])"
proof -
  have w: "\<not> fabs (length2 (btQuaternion (316227767 / 1000000000) 0 0 1) - 1)
             > QUATERNION_TOLERANCE"
    by (simp add: length2_btQuaternion fabs_def QUATERNION_TOLERANCE_def)
  have z: "fabs (length2 (btQuaternion 0 0 0 0) - 1) > QUATERNION_TOLERANCE"
    by (simp add: length2_btQuaternion fabs_def QUATERNION_TOLERANCE_def)
  have zn: "normalize_q (btQuaternion 0 0 0 0) = Inl DivisionByZero"
    by (simp add: normalize_q_zero length2_btQuaternion)
  have a: "\<bar>length2 (btQuaternion 1 1 0 0) - 1\<bar> > 1 / 10"
    by (simp add: length2_btQuaternion)
  have b: "\<bar>length2 (btQuaternion (316227767 / 1000000000) 0 0 1) - 1\<bar> > 1 / 10"
    by (simp add: length2_btQuaternion)
  have c: "\<bar>length2 (btQuaternion 0 0 0 0) - 1\<bar> > 1 / 10"
    by (simp add: length2_btQuaternion)
  have d: "quaternionStampedMsgToTF2
        \<lparr>QuaternionStampedMsg.header =
           \<lparr>Header.stamp = \<lparr>sec = 1, nsec = 2\<rparr>, Header.frame_id = ''map''\<rparr>,
         QuaternionStampedMsg.quaternion =
           \<lparr>QuaternionMsg.x = 316227767 / 1000000000, QuaternionMsg.y = 0,
            QuaternionMsg.z = 0, QuaternionMsg.w = 1\<rparr>\<rparr>
        (Stamped_default (btQuaternion 0 0 0 1)) []
      = (Stamped_full (Inr (btQuaternion (316227767 / 1000000000) 0 0 1))
           \<lparr>sec = 1, nsec = 2\<rparr> ''map'',
         [])"
    using w
    by (simp add: quaternionStampedMsgToTF2_def quaternionMsgToTF2_def Stamped_default_def
        Stamped_full_def)
  have e: "quaternionStampedTF2ToMsg
        (Stamped_full (btQuaternion 0 0 0 0) \<lparr>sec = 1, nsec = 2\<rparr> ''map'')
        \<lparr>QuaternionStampedMsg.header =
           \<lparr>Header.stamp = \<lparr>sec = 0, nsec = 0\<rparr>, Header.frame_id = ''''\<rparr>,
         QuaternionStampedMsg.quaternion =
           \<lparr>QuaternionMsg.x = 0, QuaternionMsg.y = 0, QuaternionMsg.z = 0,
            QuaternionMsg.w = 0\<rparr>\<rparr>
        []
      = (\<lparr>QuaternionStampedMsg.header =
            \<lparr>Header.stamp = \<lparr>sec = 1, nsec = 2\<rparr>, Header.frame_id = ''map''\<rparr>,
          QuaternionStampedMsg.quaternion = Inl DivisionByZero\<rparr>,
         [''TF2 to MSG: Quaternion Not Properly Normalized''])"
    using quaternionTF2ToMsg_beyond [OF z] zn
    by (simp add: quaternionStampedTF2ToMsg_def Stamped_full_def)
  show ?thesis
    by (intro conjI a b c d e) (simp_all add: transformMsgToTF2_def poseMsgToTF2_def)
qed


subsection \<open>Equality of stamped points\<close>

lemma Vector3_eq_iff: "Vector3_eq a b \<longleftrightarrow> a = b"
  by (auto simp: Vector3_eq_def intro: Vector3.equality)

lemma operator_eq_Stamped_iff:
  "operator_eq_Stamped eqT a b
     \<longleftrightarrow> Stamped.frame_id a = Stamped.frame_id b \<and> Stamped.stamp a = Stamped.stamp b
          \<and> eqT (Stamped.data a) (Stamped.data b)"
  by (simp add: operator_eq_Stamped_def)

text \<open>
  Claim C6. For two \<^verbatim>\<open>Stamped<Point>\<close> values \<open>a\<close> and \<open>b\<close>, \<^verbatim>\<open>operator==\<close> returns true
  if and only if the frame identifiers are equal, the timestamps are equal and the points are
  equal; a difference in any one of the three makes the values compare unequal.
\<close>

theorem Stamped_Point_equality:
  fixes a b :: "Point Stamped"
  shows "(operator_eq_Stamped Vector3_eq a b
            \<longleftrightarrow> Stamped.frame_id a = Stamped.frame_id b \<and> Stamped.stamp a = Stamped.stamp b
                 \<and> Stamped.data a = Stamped.data b)
       \<and> (Stamped.frame_id a \<noteq> Stamped.frame_id b \<longrightarrow> \<not> operator_eq_Stamped Vector3_eq a b)
       \<and> (Stamped.stamp a \<noteq> Stamped.stamp b \<longrightarrow> \<not> operator_eq_Stamped Vector3_eq a b)
       \<and> (Stamped.data a \<noteq> Stamped.data b \<longrightarrow> \<not> operator_eq_Stamped Vector3_eq a b)"
  by (simp add: operator_eq_Stamped_iff Vector3_eq_iff)

text \<open>Two equal values, and three pairs that differ in the frame, in the timestamp and in
  the point.\<close>

theorem Stamped_Point_equality_witness:
  "operator_eq_Stamped Vector3_eq
      (Stamped_full (btVector3 1 2 3) \<lparr>sec = 7, nsec = 9\<rparr> ''map'')
      (Stamped_full (btVector3 1 2 3) \<lparr>sec = 7, nsec = 9\<rparr> ''map'')
   \<and> \<not> operator_eq_Stamped Vector3_eq
      (Stamped_full (btVector3 1 2 3) \<lparr>sec = 7, nsec = 9\<rparr> ''map'')
      (Stamped_full (btVector3 1 2 3) \<lparr>sec = 7, nsec = 9\<rparr> ''odom'')
   \<and> \<not> operator_eq_Stamped Vector3_eq
      (Stamped_full (btVector3 1 2 3) \<lparr>sec = 7, nsec = 9\<rparr> ''map'')
      (Stamped_full (btVector3 1 2 3) \<lparr>sec = 7, nsec = 10\<rparr> ''map'')
   \<and> \<not> operator_eq_Stamped Vector3_eq
      (Stamped_full (btVector3 1 2 3) \<lparr>sec = 7, nsec = 9\<rparr> ''map'')
      (Stamped_full (btVector3 1 2 4) \<lparr>sec = 7, nsec = 9\<rparr> ''map'')"
  using
    Stamped_Point_equality
      [of "Stamped_full (btVector3 1 2 3) \<lparr>sec = 7, nsec = 9\<rparr> ''map''"
          "Stamped_full (btVector3 1 2 3) \<lparr>sec = 7, nsec = 9\<rparr> ''map''"]
    Stamped_Point_equality
      [of "Stamped_full (btVector3 1 2 3) \<lparr>sec = 7, nsec = 9\<rparr> ''map''"
          "Stamped_full (btVector3 1 2 3) \<lparr>sec = 7, nsec = 9\<rparr> ''odom''"]
    Stamped_Point_equality
      [of "Stamped_full (btVector3 1 2 3) \<lparr>sec = 7, nsec = 9\<rparr> ''map''"
          "Stamped_full (btVector3 1 2 3) \<lparr>sec = 7, nsec = 10\<rparr> ''map''"]
    Stamped_Point_equality
      [of "Stamped_full (btVector3 1 2 3) \<lparr>sec = 7, nsec = 9\<rparr> ''map''"
          "Stamped_full (btVector3 1 2 4) \<lparr>sec = 7, nsec = 9\<rparr> ''map''"]
  by (simp add: Stamped_full_def btVector3_def)

subsection \<open>Default construction\<close>

text \<open>
  Claim C10. A default-constructed \<^verbatim>\<open>Stamped<T>\<close> has the frame identifier
  \<^verbatim>\<open>NO_ID_STAMPED_DEFAULT_CONSTRUCTION\<close>, a default-constructed \<^verbatim>\<open>StampedTransform\<close> has an
  empty frame identifier and an empty child frame identifier: the two default constructions
  give different frame identifiers.
\<close>

theorem default_constructions_differ:
  "Stamped.frame_id (Stamped_default t0) = ''NO_ID_STAMPED_DEFAULT_CONSTRUCTION''
   \<and> StampedTransform.frame_id (StampedTransform_default t1) = ''''
   \<and> StampedTransform.child_frame_id (StampedTransform_default t1) = ''''
   \<and> Stamped.frame_id (Stamped_default t0)
       \<noteq> StampedTransform.frame_id (StampedTransform_default t1)"
  by (simp add: Stamped_default_def StampedTransform_default_def)

subsection \<open>Stamped conversions delegate\<close>

lemma quaternionStampedMsgToTF2_delegates:
  "quaternionStampedMsgToTF2 msg bt c
     = (Stamped_full
          (fst (quaternionMsgToTF2 (QuaternionStampedMsg.quaternion msg) (Stamped.data bt) c))
          (Header.stamp (QuaternionStampedMsg.header msg))
          (Header.frame_id (QuaternionStampedMsg.header msg)),
        snd (quaternionMsgToTF2 (QuaternionStampedMsg.quaternion msg) (Stamped.data bt) c))"
  by (simp add: quaternionStampedMsgToTF2_def Stamped_full_def split: prod.split)

lemma quaternionStampedTF2ToMsg_delegates:
  "quaternionStampedTF2ToMsg bt msg c
     = (\<lparr>QuaternionStampedMsg.header =
           \<lparr>Header.stamp = Stamped.stamp bt, Header.frame_id = Stamped.frame_id bt\<rparr>,
         QuaternionStampedMsg.quaternion =
           fst (snd (quaternionTF2ToMsg (Stamped.data bt)
                       (QuaternionStampedMsg.quaternion msg) c))\<rparr>,
        snd (snd (quaternionTF2ToMsg (Stamped.data bt)
                    (QuaternionStampedMsg.quaternion msg) c)))"
  by (simp add: quaternionStampedTF2ToMsg_def split: prod.split)

lemma vector3StampedMsgToTF2_delegates:
  "vector3StampedMsgToTF2 msg bt
     = Stamped_full (vector3MsgToTF2 (Vector3StampedMsg.vector msg) (Stamped.data bt))
         (Header.stamp (Vector3StampedMsg.header msg))
         (Header.frame_id (Vector3StampedMsg.header msg))"
  by (simp add: vector3StampedMsgToTF2_def Stamped_full_def)

lemma vector3StampedTF2ToMsg_delegates:
  "vector3StampedTF2ToMsg bt msg
     = \<lparr>Vector3StampedMsg.header =
          \<lparr>Header.stamp = Stamped.stamp bt, Header.frame_id = Stamped.frame_id bt\<rparr>,
        Vector3StampedMsg.vector =
          vector3TF2ToMsg (Stamped.data bt) (Vector3StampedMsg.vector msg)\<rparr>"
  by (simp add: vector3StampedTF2ToMsg_def)

lemma pointStampedMsgToTF2_delegates:
  "pointStampedMsgToTF2 msg bt
     = Stamped_full (pointMsgToTF2 (PointStampedMsg.point msg) (Stamped.data bt))
         (Header.stamp (PointStampedMsg.header msg))
         (Header.frame_id (PointStampedMsg.header msg))"
  by (simp add: pointStampedMsgToTF2_def Stamped_full_def)

lemma pointStampedTF2ToMsg_delegates:
  "pointStampedTF2ToMsg bt msg
     = \<lparr>PointStampedMsg.header =
          \<lparr>Header.stamp = Stamped.stamp bt, Header.frame_id = Stamped.frame_id bt\<rparr>,
        PointStampedMsg.point =
          pointTF2ToMsg (Stamped.data bt) (PointStampedMsg.point msg)\<rparr>"
  by (simp add: pointStampedTF2ToMsg_def)

lemma transformStampedMsgToTF2_delegates:
  "transformStampedMsgToTF2 Transform_ctor msg bt c
     = (StampedTransform_full
          (fst (transformMsgToTF2 Transform_ctor (TransformStampedMsg.transform msg)
                  (StampedTransform.data bt) c))
          (Header.stamp (TransformStampedMsg.header msg))
          (Header.frame_id (TransformStampedMsg.header msg))
          (TransformStampedMsg.child_frame_id msg),
        snd (transformMsgToTF2 Transform_ctor (TransformStampedMsg.transform msg)
               (StampedTransform.data bt) c))"
  by (simp add: transformStampedMsgToTF2_def StampedTransform_full_def split: prod.split)

lemma transformStampedTF2ToMsg_delegates:
  "transformStampedTF2ToMsg getOrigin getRotation bt msg c
     = (\<lparr>TransformStampedMsg.header =
           \<lparr>Header.stamp = StampedTransform.stamp bt,
            Header.frame_id = StampedTransform.frame_id bt\<rparr>,
         TransformStampedMsg.child_frame_id = StampedTransform.child_frame_id bt,
         TransformStampedMsg.transform =
           fst (transformTF2ToMsg getOrigin getRotation (StampedTransform.data bt)
                  (TransformStampedMsg.transform msg) c)\<rparr>,
        snd (transformTF2ToMsg getOrigin getRotation (StampedTransform.data bt)
               (TransformStampedMsg.transform msg) c))"
  by (simp add: transformStampedTF2ToMsg_def split: prod.split)

lemma poseStampedMsgToTF2_delegates:
  "poseStampedMsgToTF2 Transform_ctor msg bt c
     = (Stamped_full
          (fst (poseMsgToTF2 Transform_ctor (PoseStampedMsg.pose msg) (Stamped.data bt) c))
          (Header.stamp (PoseStampedMsg.header msg))
          (Header.frame_id (PoseStampedMsg.header msg)),
        snd (poseMsgToTF2 Transform_ctor (PoseStampedMsg.pose msg) (Stamped.data bt) c))"
  by (simp add: poseStampedMsgToTF2_def Stamped_full_def split: prod.split)

lemma poseStampedTF2ToMsg_delegates:
  "poseStampedTF2ToMsg getOrigin getRotation bt msg c
     = (\<lparr>PoseStampedMsg.header =
           \<lparr>Header.stamp = Stamped.stamp bt, Header.frame_id = Stamped.frame_id bt\<rparr>,
         PoseStampedMsg.pose =
           fst (poseTF2ToMsg getOrigin getRotation (Stamped.data bt)
                  (PoseStampedMsg.pose msg) c)\<rparr>,
        snd (poseTF2ToMsg getOrigin getRotation (Stamped.data bt)
               (PoseStampedMsg.pose msg) c))"
  by (simp add: poseStampedTF2ToMsg_def split: prod.split)

text \<open>
  Claim C7. Every stamped conversion is its unstamped conversion applied to the payload,
  followed by a copy of the timestamp and of the frame identifier: the result consists of
  what the unstamped conversion gives for the payload, of the timestamp and the frame
  identifier of the input, and of the console of the unstamped conversion where there is one.
  The copy is made whatever the unstamped conversion gives, also beside a quaternion that
  could not be normalized. The two conversions of \<^verbatim>\<open>StampedTransform\<close> copy the child frame
  identifier as well, in both directions.
\<close>

theorem stamped_conversions_delegate:
  "quaternionStampedMsgToTF2 qmsg qbt c
     = (Stamped_full
          (fst (quaternionMsgToTF2 (QuaternionStampedMsg.quaternion qmsg) (Stamped.data qbt) c))
          (Header.stamp (QuaternionStampedMsg.header qmsg))
          (Header.frame_id (QuaternionStampedMsg.header qmsg)),
        snd (quaternionMsgToTF2 (QuaternionStampedMsg.quaternion qmsg) (Stamped.data qbt) c))
   \<and> quaternionStampedTF2ToMsg qbt qmsg c
     = (\<lparr>QuaternionStampedMsg.header =
           \<lparr>Header.stamp = Stamped.stamp qbt, Header.frame_id = Stamped.frame_id qbt\<rparr>,
         QuaternionStampedMsg.quaternion =
           fst (snd (quaternionTF2ToMsg (Stamped.data qbt)
                       (QuaternionStampedMsg.quaternion qmsg) c))\<rparr>,
        snd (snd (quaternionTF2ToMsg (Stamped.data qbt)
                    (QuaternionStampedMsg.quaternion qmsg) c)))
   \<and> vector3StampedMsgToTF2 vmsg vbt
     = Stamped_full (vector3MsgToTF2 (Vector3StampedMsg.vector vmsg) (Stamped.data vbt))
         (Header.stamp (Vector3StampedMsg.header vmsg))
         (Header.frame_id (Vector3StampedMsg.header vmsg))
   \<and> vector3StampedTF2ToMsg vbt vmsg
     = \<lparr>Vector3StampedMsg.header =
          \<lparr>Header.stamp = Stamped.stamp vbt, Header.frame_id = Stamped.frame_id vbt\<rparr>,
        Vector3StampedMsg.vector =
          vector3TF2ToMsg (Stamped.data vbt) (Vector3StampedMsg.vector vmsg)\<rparr>
   \<and> pointStampedMsgToTF2 pmsg pbt
     = Stamped_full (pointMsgToTF2 (PointStampedMsg.point pmsg) (Stamped.data pbt))
         (Header.stamp (PointStampedMsg.header pmsg))
         (Header.frame_id (PointStampedMsg.header pmsg))
   \<and> pointStampedTF2ToMsg pbt pmsg
     = \<lparr>PointStampedMsg.header =
          \<lparr>Header.stamp = Stamped.stamp pbt, Header.frame_id = Stamped.frame_id pbt\<rparr>,
        PointStampedMsg.point =
          pointTF2ToMsg (Stamped.data pbt) (PointStampedMsg.point pmsg)\<rparr>
   \<and> transformStampedMsgToTF2 Transform_ctor tmsg tbt c
     = (StampedTransform_full
          (fst (transformMsgToTF2 Transform_ctor (TransformStampedMsg.transform tmsg)
                  (StampedTransform.data tbt) c))
          (Header.stamp (TransformStampedMsg.header tmsg))
          (Header.frame_id (TransformStampedMsg.header tmsg))
          (TransformStampedMsg.child_frame_id tmsg),
        snd (transformMsgToTF2 Transform_ctor (TransformStampedMsg.transform tmsg)
               (StampedTransform.data tbt) c))
   \<and> transformStampedTF2ToMsg getOrigin getRotation tbt tmsg c
     = (\<lparr>TransformStampedMsg.header =
           \<lparr>Header.stamp = StampedTransform.stamp tbt,
            Header.frame_id = StampedTransform.frame_id tbt\<rparr>,
         TransformStampedMsg.child_frame_id = StampedTransform.child_frame_id tbt,
         TransformStampedMsg.transform =
           fst (transformTF2ToMsg getOrigin getRotation (StampedTransform.data tbt)
                  (TransformStampedMsg.transform tmsg) c)\<rparr>,
        snd (transformTF2ToMsg getOrigin getRotation (StampedTransform.data tbt)
               (TransformStampedMsg.transform tmsg) c))
   \<and> poseStampedMsgToTF2 Transform_ctor smsg sbt c
     = (Stamped_full
          (fst (poseMsgToTF2 Transform_ctor (PoseStampedMsg.pose smsg) (Stamped.data sbt) c))
          (Header.stamp (PoseStampedMsg.header smsg))
          (Header.frame_id (PoseStampedMsg.header smsg)),
        snd (poseMsgToTF2 Transform_ctor (PoseStampedMsg.pose smsg) (Stamped.data sbt) c))
   \<and> poseStampedTF2ToMsg getOrigin getRotation sbt smsg c
     = (\<lparr>PoseStampedMsg.header =
           \<lparr>Header.stamp = Stamped.stamp sbt, Header.frame_id = Stamped.frame_id sbt\<rparr>,
         PoseStampedMsg.pose =
           fst (poseTF2ToMsg getOrigin getRotation (Stamped.data sbt)
                  (PoseStampedMsg.pose smsg) c)\<rparr>,
        snd (poseTF2ToMsg getOrigin getRotation (Stamped.data sbt)
               (PoseStampedMsg.pose smsg) c))"
  by (intro conjI quaternionStampedMsgToTF2_delegates quaternionStampedTF2ToMsg_delegates
      vector3StampedMsgToTF2_delegates vector3StampedTF2ToMsg_delegates
      pointStampedMsgToTF2_delegates pointStampedTF2ToMsg_delegates
      transformStampedMsgToTF2_delegates transformStampedTF2ToMsg_delegates
      poseStampedMsgToTF2_delegates poseStampedTF2ToMsg_delegates)


subsection \<open>Identity and yaw\<close>

text \<open>
  The formula of \<open>setRPY\<close> is the product of the rotations by \<open>yaw\<close> about Z, by \<open>pitch\<close>
  about Y and by \<open>roll\<close> about X, the roll being applied first.
\<close>

lemma setRPY_product:
  "setRPY roll pitch yaw
     = mult_qq (btQuaternion 0 0 (sin (yaw * 0.5)) (cos (yaw * 0.5)))
         (mult_qq (btQuaternion 0 (sin (pitch * 0.5)) 0 (cos (pitch * 0.5)))
                  (btQuaternion (sin (roll * 0.5)) 0 0 (cos (roll * 0.5))))"
  unfolding setRPY_def mult_qq_def btQuaternion_def Let_def
  apply (simp only: Quaternion.simps mult_zero_left mult_zero_right add_0_left add_0_right
      diff_0_right)
  apply (simp only: Quaternion.ext_inject)
  apply (intro conjI)
     apply (simp_all only: diff_0 add_0)
     apply algebra+
  done

lemma setRPY_yaw_only:
  "setRPY 0 0 yaw = btQuaternion 0 0 (sin (yaw * 0.5)) (cos (yaw * 0.5))"
  by (simp add: setRPY_def Let_def)

lemma createIdentityQuaternion_value: "createIdentityQuaternion = btQuaternion 0 0 0 1"
  by (simp add: createIdentityQuaternion_def setRPY_def)

lemma quatRotate_identity: "quatRotate (btQuaternion 0 0 0 1) v = v"
  by (simp add: quatRotate_def mult_qq_def mult_qv_def inverse_q_def btQuaternion_def
      btVector3_def)

lemma btMatrix3x3_identity:
  "btMatrix3x3 (btQuaternion 0 0 0 1)
     = Inr \<lparr>m_el0 = btVector3 1 0 0, m_el1 = btVector3 0 1 0, m_el2 = btVector3 0 0 1\<rparr>"
  by (simp add: btMatrix3x3_def length2_def btQuaternion_def)

lemma mult_mv_identity:
  "mult_mv \<lparr>m_el0 = btVector3 1 0 0, m_el1 = btVector3 0 1 0, m_el2 = btVector3 0 0 1\<rparr> v = v"
  by (simp add: mult_mv_def btVector3_def)

text \<open>
  Claim C9. The quaternion that \<open>createIdentityQuaternion\<close> returns is the zero rotation: it
  leaves every vector unchanged, whether it is applied to the vector directly (the
  quaternion product \<open>q v q\<^sup>-\<^sup>1\<close>) or through its rotation matrix, which is the identity
  matrix.
\<close>

theorem createIdentityQuaternion_rotation:
  "quatRotate createIdentityQuaternion v = v
   \<and> btMatrix3x3 createIdentityQuaternion
       = Inr \<lparr>m_el0 = btVector3 1 0 0, m_el1 = btVector3 0 1 0, m_el2 = btVector3 0 0 1\<rparr>
   \<and> mult_mv \<lparr>m_el0 = btVector3 1 0 0, m_el1 = btVector3 0 1 0, m_el2 = btVector3 0 0 1\<rparr> v = v"
  by (simp add: createIdentityQuaternion_value quatRotate_identity btMatrix3x3_identity
      mult_mv_identity)

lemma createQuaternionFromYaw_half_pi:
  "createQuaternionFromYaw (pi / 2) = btQuaternion 0 0 (sqrt 2 / 2) (sqrt 2 / 2)"
  by (simp add: createQuaternionFromYaw_def setRPY_def sin_45 cos_45)

lemma btMatrix3x3_quarter_turn:
  "btMatrix3x3 (btQuaternion 0 0 (sqrt 2 / 2) (sqrt 2 / 2))
     = Inr \<lparr>m_el0 = btVector3 0 (- 1) 0, m_el1 = btVector3 1 0 0, m_el2 = btVector3 0 0 1\<rparr>"
  by (simp add: btMatrix3x3_def length2_def btQuaternion_def)

lemma getRPY_quarter_turn:
  "getRPY \<lparr>m_el0 = btVector3 0 (- 1) 0, m_el1 = btVector3 1 0 0, m_el2 = btVector3 0 0 1\<rparr>
     = (0, 0, pi / 2)"
  by (simp add: getRPY_def btVector3_def fabs_def btAtan2_def)

text \<open>
  Claim C8. \<open>getYaw\<close> applied to the quaternion of \<open>createQuaternionFromYaw (\<pi> / 2)\<close> returns
  \<open>\<pi> / 2\<close> within the tolerance \<open>10\<^sup>-\<^sup>6\<close>; over the reals of the model it returns \<open>\<pi> / 2\<close>
  itself.
\<close>

theorem getYaw_createQuaternionFromYaw:
  "getYaw (createQuaternionFromYaw (pi / 2)) = Inr (pi / 2)
   \<and> (\<exists>yaw. getYaw (createQuaternionFromYaw (pi / 2)) = Inr yaw
          \<and> \<bar>yaw - pi / 2\<bar> \<le> 1 / 1000000)"
proof -
  have y: "getYaw (createQuaternionFromYaw (pi / 2)) = Inr (pi / 2)"
    by (simp add: getYaw_def createQuaternionFromYaw_half_pi btMatrix3x3_quarter_turn
        getRPY_quarter_turn)
  have "\<bar>pi / 2 - pi / 2\<bar> \<le> (1 / 1000000 :: real)" by simp
  with y show ?thesis by blast
qed

end
